theory Spec2Isabelle
  imports Main
begin

section \<open>The job-board backend of \<^verbatim>\<open>src/index.js\<close>\<close>

text \<open>
  The program is one Express application over five Mongoose collections. Each route is a
  chain of middleware (\<^verbatim>\<open>auth\<close>, then a role guard) in front of an
  \<^verbatim>\<open>async\<close> handler that reads and writes the collections and ends in one HTTP
  response. The embedding keeps that shape:
  \<^item> a document is a record, a collection is the list of its documents in insertion
    order, and the database is a record of the five collections;
  \<^item> a handler is a function from the database and the request to the database
    afterwards and the response sent;
  \<^item> a middleware either answers the request itself or lets it through.

  What the model fixes about the libraries the source calls:
  \<^item> an \<^verbatim>\<open>ObjectId\<close> is an opaque identifier, here a natural number, and a new
    document takes the next unused one; route parameters are identifiers already, so the
    cast of a malformed id string is outside the model;
  \<^item> the store answers every call: a lost connection is outside the model. What still
    throws inside a \<^verbatim>\<open>try\<close> block is Mongoose's check against the schema, the
    validation that \<^verbatim>\<open>save()\<close> runs and the cast of an update, and the
    \<^verbatim>\<open>catch\<close> block of the handler answers it;
  \<^item> request bodies are typed as the schemas cast them, and an entry of a body may be
    absent; in the body of a resume an entry for a \<^verbatim>\<open>String\<close> path may also be a
    value that cannot be cast; the username and the password of a registration or a login
    are strings;
  \<^item> the \<^verbatim>\<open>timestamps\<close> option (\<^verbatim>\<open>createdAt\<close>, \<^verbatim>\<open>updatedAt\<close>) is modelled for
    resumes, where a claim depends on it, and left out for jobs and applications; the
    version key \<^verbatim>\<open>__v\<close> is left out.
\<close>

subsection \<open>Documents\<close>

type_synonym oid = nat

text \<open>Values of the schema types \<^verbatim>\<open>Object\<close> and \<^verbatim>\<open>Array\<close>, and of strings.\<close>

datatype mixed = MString string | MArray "mixed list" | MObject "(string \<times> mixed) list"

text \<open>
  \<^verbatim>\<open>./models/User\<close> is required by the source but is not part of it. A user document
  has the paths the source reads and writes.
\<close>

record user =
  u_id :: oid
  username :: string
  password :: string
  role :: "string option"
  recruiterProfile :: "oid option"

datatype profile_path =
    CompanyName | CompanyWebsite | Industry | CompanySize | CompanyAddress | Country
  | RecruiterFullName | JobTitle | RecruiterEmail | RecruiterPhone | LinkedInProfile
  | RolesRecruitedFor | PreferredLocations | HiringVolume | RecruitmentModel

record recruiter_profile =
  rp_id :: oid
  rp_user :: oid
  rp_fields :: "profile_path \<rightharpoonup> mixed"

text \<open>
  A resume as Mongoose reads it: the paths of \<^verbatim>\<open>resumeSchema\<close>, a list path being
  \<open>[]\<close> and \<^verbatim>\<open>template\<close> being \<^verbatim>\<open>'classic'\<close> where nothing was written, and the
  two timestamps.
\<close>

record resume =
  r_id :: oid
  r_user :: oid
  personalInfo :: "mixed option"
  summary :: "string option"
  experience :: "mixed list"
  education :: "mixed list"
  skills :: "mixed list"
  projects :: "mixed list"
  links :: "mixed list"
  awards :: "mixed list"
  template :: string
  createdAt :: nat
  updatedAt :: nat

record job =
  j_id :: oid
  recruiter :: oid
  jobTitle :: string
  department :: "string option"
  reportsTo :: "string option"
  location :: string
  employmentType :: string
  jobSummary :: string
  keyResponsibilities :: "string list"
  requiredQualifications :: "string list"
  preferredQualifications :: "string list"
  coreCompetencies :: "string list"
  workEnvironment :: "string option"
  compensationAndBenefits :: "string option"
  applicationInstructions :: "string option"
  companyName :: string

datatype application_status = Submitted | Viewed | Rejected | Interviewing

record application =
  a_id :: oid
  a_job :: oid
  a_candidate :: oid
  a_resume :: oid
  a_status :: application_status

record db =
  users :: "user list"
  profiles :: "recruiter_profile list"
  resumes :: "resume list"
  jobs :: "job list"
  applications :: "application list"
  next_oid :: oid

subsection \<open>Requests and responses\<close>

text \<open>\<^verbatim>\<open>req.user\<close>: the \<^verbatim>\<open>user\<close> object of a token's payload.\<close>

record req_user =
  ru_id :: oid
  ru_role :: "string option"

text \<open>
  A token is a string. It is the empty string or some other text that is no JWT
  (\<open>Garbage\<close>), or the encoding of a payload \<^verbatim>\<open>{user, iat, exp}\<close> with a
  signature. The signature is symbolic: the key it was made with.
\<close>

record jwt =
  jwt_user :: req_user
  iat :: nat
  exp :: nat
  signed_with :: string

datatype token = Garbage string | Signed jwt

text \<open>
  The body of a response: \<^verbatim>\<open>json({msg})\<close>, \<^verbatim>\<open>{message}\<close>, \<^verbatim>\<open>send(text)\<close>,
  \<^verbatim>\<open>json({token})\<close>, \<^verbatim>\<open>json(job)\<close>, \<^verbatim>\<open>json(user)\<close> and
  \<^verbatim>\<open>json({message, resume})\<close>.
\<close>

datatype body =
    Msg string
  | Message string
  | Text string
  | TokenBody token
  | JobBody job
  | UserBody user
  | ResumeBody string resume

record response =
  status :: nat
  body :: body

text \<open>
  What an awaited call can throw. \<open>MongoError\<close> is the driver's error for a failed
  store call; nothing in this model throws it, but the \<^verbatim>\<open>catch\<close> blocks are
  defined on it as on every error.
\<close>

datatype error =
  ValidationError | CastError | JsonWebTokenError | TokenExpiredError | MongoError

text \<open>
  \<^verbatim>\<open>catch (err) { console.error(err.message); res.status(500).send('Server Error'); }\<close>
\<close>

definition Server_Error :: "error \<Rightarrow> response" where
  "Server_Error err = \<lparr>status = 500, body = Text ''Server Error''\<rparr>"

subsection \<open>Role guards\<close>

text \<open>
  Each guard answers the request itself (\<open>Some\<close> response) or calls \<^verbatim>\<open>next()\<close>
  (\<open>None\<close>).
\<close>

definition isCandidate :: "req_user \<Rightarrow> response option" where
  "isCandidate u =
     (if ru_role u \<noteq> Some ''Candidate''
      then Some \<lparr>status = 403, body = Msg ''Only candidates can perform this action.''\<rparr>
      else None)"

definition isAdmin :: "req_user \<Rightarrow> response option" where
  "isAdmin u =
     (if ru_role u \<noteq> Some ''Admin''
      then Some \<lparr>status = 403, body = Msg ''Admin access denied''\<rparr>
      else None)"

definition isRecruiter :: "req_user \<Rightarrow> response option" where
  "isRecruiter u =
     (if ru_role u \<noteq> Some ''Recruiter''
      then Some \<lparr>status = 401, body = Msg ''Only recruiters can access this route''\<rparr>
      else None)"

subsection \<open>Configuration and the parts of the program outside \<^verbatim>\<open>src/\<close>\<close>

text \<open>
  The process reads \<^verbatim>\<open>JWT_SECRET\<close> from its environment. The other fields stand for
  code the source calls but does not contain, and every theorem below holds for all of
  them: \<^verbatim>\<open>bcrypt.compare\<close>, and from \<^verbatim>\<open>./models/User\<close> the validators of the
  three paths, the default of \<^verbatim>\<open>role\<close> and the pre-save hook that hashes the
  password.
\<close>

record config =
  JWT_SECRET :: string
  bcrypt_compare :: "string \<Rightarrow> string \<Rightarrow> bool"
  valid_username :: "string \<Rightarrow> bool"
  valid_password :: "string \<Rightarrow> bool"
  valid_role :: "string option \<Rightarrow> bool"
  default_role :: "string option"
  hash_password :: "string \<Rightarrow> string"

subsection \<open>Store operations\<close>

text \<open>
  \<^verbatim>\<open>findOne(filter)\<close> and \<^verbatim>\<open>findById(id)\<close> are \<^const>\<open>find\<close> on the collection:
  the first document that matches, if any. \<^verbatim>\<open>deleteOne\<close> removes the first match,
  \<^verbatim>\<open>deleteMany\<close> every match.
\<close>

fun deleteOne :: "('a \<Rightarrow> bool) \<Rightarrow> 'a list \<Rightarrow> 'a list" where
  "deleteOne P [] = []"
| "deleteOne P (x # xs) = (if P x then xs else x # deleteOne P xs)"

definition deleteMany :: "('a \<Rightarrow> bool) \<Rightarrow> 'a list \<Rightarrow> 'a list" where
  "deleteMany P xs = filter (\<lambda>x. \<not> P x) xs"

text \<open>An update of the first matching document, in place.\<close>

fun updateOne :: "('a \<Rightarrow> bool) \<Rightarrow> ('a \<Rightarrow> 'a) \<Rightarrow> 'a list \<Rightarrow> 'a list" where
  "updateOne P f [] = []"
| "updateOne P f (x # xs) = (if P x then f x # xs else x # updateOne P f xs)"

subsection \<open>Tokens\<close>

text \<open>
  \<^verbatim>\<open>jwt.sign(payload, secret, {expiresIn})\<close> at clock time \<open>now\<close> (in seconds) stamps
  the payload with \<^verbatim>\<open>iat = now\<close> and \<^verbatim>\<open>exp = now + expiresIn\<close> and signs it.
  \<^verbatim>\<open>jwt.verify(token, secret)\<close> throws on a string that is no JWT, then on a
  signature made with another key, then when the clock has reached \<^verbatim>\<open>exp\<close>, and
  otherwise returns the payload.
\<close>

definition expiresIn_5h :: nat where
  "expiresIn_5h = 5 * 60 * 60"

definition jwt_sign :: "req_user \<Rightarrow> string \<Rightarrow> nat \<Rightarrow> nat \<Rightarrow> token" where
  "jwt_sign payload_user secret expiresIn now =
     Signed \<lparr>jwt_user = payload_user, iat = now, exp = now + expiresIn, signed_with = secret\<rparr>"

fun jwt_verify :: "token \<Rightarrow> string \<Rightarrow> nat \<Rightarrow> error + jwt" where
  "jwt_verify (Garbage s) secret now = Inl JsonWebTokenError"
| "jwt_verify (Signed t) secret now =
     (if signed_with t \<noteq> secret then Inl JsonWebTokenError
      else if exp t \<le> now then Inl TokenExpiredError
      else Inr t)"

subsection \<open>\<^verbatim>\<open>POST /register\<close>\<close>

record profile_data =
  pd_user :: "oid option"
  pd_fields :: "profile_path \<rightharpoonup> mixed"

record register_body =
  rb_username :: string
  rb_password :: string
  rb_role :: "string option"
  rb_profileData :: profile_data

text \<open>
  \<^verbatim>\<open>new User({username, password, role})\<close>: a fresh id, and the schema default where the
  body has no role.
\<close>

definition new_User :: "config \<Rightarrow> oid \<Rightarrow> string \<Rightarrow> string \<Rightarrow> string option \<Rightarrow> user" where
  "new_User cfg i un pw r =
     \<lparr>u_id = i, username = un, password = pw,
      role = (case r of None \<Rightarrow> default_role cfg | Some x \<Rightarrow> Some x),
      recruiterProfile = None\<rparr>"

text \<open>
  \<^verbatim>\<open>new RecruiterProfile({user: user._id, ...profileData})\<close>: the spread comes last, so
  a \<^verbatim>\<open>user\<close> entry of the body replaces the new user's id.
\<close>

definition new_RecruiterProfile :: "oid \<Rightarrow> oid \<Rightarrow> profile_data \<Rightarrow> recruiter_profile" where
  "new_RecruiterProfile i uid pd =
     \<lparr>rp_id = i,
      rp_user = (case pd_user pd of None \<Rightarrow> uid | Some x \<Rightarrow> x),
      rp_fields = pd_fields pd\<rparr>"

text \<open>
  \<^verbatim>\<open>user.save()\<close> on a new document: validation of every path, then the pre-save
  hook, then the insert.
\<close>

definition save_new_user :: "config \<Rightarrow> db \<Rightarrow> user \<Rightarrow> error + db" where
  "save_new_user cfg d u =
     (if valid_username cfg (username u) \<and> valid_password cfg (password u)
         \<and> valid_role cfg (role u)
      then Inr (d\<lparr>users := users d @ [u\<lparr>password := hash_password cfg (password u)\<rparr>]\<rparr>)
      else Inl ValidationError)"

definition register :: "config \<Rightarrow> db \<Rightarrow> register_body \<Rightarrow> db \<times> response" where
  "register cfg d b =
     (case find (\<lambda>x. username x = rb_username b) (users d) of
        Some existing \<Rightarrow> (d, \<lparr>status = 400, body = Msg ''User already exists''\<rparr>)
      | None \<Rightarrow>
          let user0 = new_User cfg (next_oid d) (rb_username b) (rb_password b) (rb_role b);
              d1 = d\<lparr>next_oid := Suc (next_oid d)\<rparr>;
              (d2, user1) =
                (if rb_role b = Some ''Recruiter''
                 then let recruiterProfile0 =
                            new_RecruiterProfile (next_oid d1) (u_id user0) (rb_profileData b)
                      in (d1\<lparr>profiles := profiles d1 @ [recruiterProfile0],
                              next_oid := Suc (next_oid d1)\<rparr>,
                          user0\<lparr>recruiterProfile := Some (rp_id recruiterProfile0)\<rparr>)
                 else (d1, user0))
          in case save_new_user cfg d2 user1 of
               Inl err \<Rightarrow> (d2, \<lparr>status = 500, body = Text ''Server error''\<rparr>)
             | Inr d3 \<Rightarrow> (d3, \<lparr>status = 201, body = Message ''User registered successfully''\<rparr>))"

subsection \<open>\<^verbatim>\<open>POST /login\<close>\<close>

definition login :: "config \<Rightarrow> nat \<Rightarrow> db \<Rightarrow> string \<Rightarrow> string \<Rightarrow> response" where
  "login cfg now d un pw =
     (case find (\<lambda>x. username x = un) (users d) of
        None \<Rightarrow> \<lparr>status = 400, body = Msg ''Invalid credentials''\<rparr>
      | Some u \<Rightarrow>
          if \<not> bcrypt_compare cfg pw (password u)
          then \<lparr>status = 400, body = Msg ''Invalid credentials''\<rparr>
          else \<lparr>status = 200,
                body = TokenBody (jwt_sign \<lparr>ru_id = u_id u, ru_role = role u\<rparr>
                                    (JWT_SECRET cfg) expiresIn_5h now)\<rparr>)"

subsection \<open>The \<^verbatim>\<open>auth\<close> middleware\<close>

text \<open>
  The header \<^verbatim>\<open>x-auth-token\<close> is absent (\<open>None\<close>) or a string. \<^verbatim>\<open>!token\<close> holds
  for the absent header and for the empty string.
\<close>

definition auth :: "config \<Rightarrow> nat \<Rightarrow> token option \<Rightarrow> response + req_user" where
  "auth cfg now hdr =
     (case hdr of
        None \<Rightarrow> Inl \<lparr>status = 401, body = Msg ''No token, authorization denied''\<rparr>
      | Some t \<Rightarrow>
          if t = Garbage []
          then Inl \<lparr>status = 401, body = Msg ''No token, authorization denied''\<rparr>
          else (case jwt_verify t (JWT_SECRET cfg) now of
                  Inr decoded \<Rightarrow> Inr (jwt_user decoded)
                | Inl err \<Rightarrow> Inl \<lparr>status = 401, body = Msg ''Token is not valid''\<rparr>))"

subsection \<open>\<^verbatim>\<open>POST /api/resume\<close>\<close>

text \<open>
  What a document gives when it is read and sent (\<^verbatim>\<open>res.json\<close> of a Mongoose
  document, with the schema's default \<^verbatim>\<open>minimize\<close>): an object without entries is
  left out of the object that holds it, but stays where it is an element of an array.
\<close>

fun clone :: "mixed \<Rightarrow> mixed option"
  and clone_child :: "mixed \<Rightarrow> mixed"
  and clone_items :: "mixed list \<Rightarrow> mixed list"
  and clone_entries :: "(string \<times> mixed) list \<Rightarrow> (string \<times> mixed) list" where
  "clone (MString s) = Some (MString s)"
| "clone (MArray xs) = Some (MArray (clone_items xs))"
| "clone (MObject kvs) =
     (let ret = clone_entries kvs in if ret = [] then None else Some (MObject ret))"
| "clone_child (MString s) = MString s"
| "clone_child (MArray xs) = MArray (clone_items xs)"
| "clone_child (MObject kvs) = MObject (clone_entries kvs)"
| "clone_items [] = []"
| "clone_items (x # xs) = clone_child x # clone_items xs"
| "clone_entries [] = []"
| "clone_entries ((k, v) # kvs) =
     (case clone v of None \<Rightarrow> clone_entries kvs | Some val \<Rightarrow> (k, val) # clone_entries kvs)"

text \<open>
  An entry of the body for a path of type \<^verbatim>\<open>String\<close>: a value that Mongoose casts to
  this string, or a value it cannot cast (an object, an array).
\<close>

datatype 'a castable = Castable 'a | Uncastable

text \<open>
  The body of the request: its \<^verbatim>\<open>user\<close> entry and the entries for the nine other
  paths of \<^verbatim>\<open>resumeSchema\<close>. An entry the body lacks is \<open>None\<close>.
\<close>

record resume_body =
  res_user :: "oid option"
  res_personalInfo :: "mixed option"
  res_summary :: "string castable option"
  res_experience :: "mixed list option"
  res_education :: "mixed list option"
  res_skills :: "mixed list option"
  res_projects :: "mixed list option"
  res_links :: "mixed list option"
  res_awards :: "mixed list option"
  res_template :: "string castable option"

text \<open>
  Mongoose casts the update to the schema before it sends it, and throws when an entry
  cannot be cast.
\<close>

definition castUpdate :: "resume_body \<Rightarrow> error + resume_body" where
  "castUpdate upd =
     (if res_summary upd = Some Uncastable \<or> res_template upd = Some Uncastable
      then Inl CastError else Inr upd)"

definition cast_value :: "'a castable option \<Rightarrow> 'a option" where
  "cast_value e = (case e of Some (Castable v) \<Rightarrow> Some v | _ \<Rightarrow> None)"

text \<open>
  The update document has no update operator, so Mongoose sends it as
  \<^verbatim>\<open>{$set: resumeData}\<close>: every path the update names is written, every other path of
  the stored document stays. The \<^verbatim>\<open>timestamps\<close> option adds \<^verbatim>\<open>updatedAt\<close> to
  the paths written.
\<close>

definition set_paths :: "nat \<Rightarrow> resume_body \<Rightarrow> resume \<Rightarrow> resume" where
  "set_paths now upd r =
     r\<lparr>r_user := (case res_user upd of None \<Rightarrow> r_user r | Some x \<Rightarrow> x),
       personalInfo := (case res_personalInfo upd of None \<Rightarrow> personalInfo r | Some v \<Rightarrow> clone v),
       summary := (case cast_value (res_summary upd) of None \<Rightarrow> summary r | Some s \<Rightarrow> Some s),
       experience := (case res_experience upd of None \<Rightarrow> experience r | Some xs \<Rightarrow> clone_items xs),
       education := (case res_education upd of None \<Rightarrow> education r | Some xs \<Rightarrow> clone_items xs),
       skills := (case res_skills upd of None \<Rightarrow> skills r | Some xs \<Rightarrow> clone_items xs),
       projects := (case res_projects upd of None \<Rightarrow> projects r | Some xs \<Rightarrow> clone_items xs),
       links := (case res_links upd of None \<Rightarrow> links r | Some xs \<Rightarrow> clone_items xs),
       awards := (case res_awards upd of None \<Rightarrow> awards r | Some xs \<Rightarrow> clone_items xs),
       template := (case cast_value (res_template upd) of None \<Rightarrow> template r | Some t \<Rightarrow> t),
       updatedAt := now\<rparr>"

text \<open>
  A resume that has only its id and its owner, as it is read: the list paths are empty,
  \<^verbatim>\<open>template\<close> has its default \<^verbatim>\<open>'classic'\<close>, and both timestamps are the time of
  the insert.
\<close>

definition new_Resume :: "oid \<Rightarrow> oid \<Rightarrow> nat \<Rightarrow> resume" where
  "new_Resume i uid now =
     \<lparr>r_id = i, r_user = uid, personalInfo = None, summary = None, experience = [],
      education = [], skills = [], projects = [], links = [], awards = [],
      template = ''classic'', createdAt = now, updatedAt = now\<rparr>"

text \<open>
  \<^verbatim>\<open>Resume.findOneAndUpdate({user}, update, {new: true, upsert: true, runValidators: true})\<close>:
  the first resume of that user is updated in place; when there is none, a document is
  inserted from the filter and the update. The result is the document afterwards. The
  schema has no validator to run.
\<close>

definition findOneAndUpdate :: "nat \<Rightarrow> oid \<Rightarrow> resume_body \<Rightarrow> db \<Rightarrow> error + db \<times> resume" where
  "findOneAndUpdate now uid update d =
     (case castUpdate update of
        Inl err \<Rightarrow> Inl err
      | Inr upd \<Rightarrow>
          (case find (\<lambda>r. r_user r = uid) (resumes d) of
             Some r \<Rightarrow>
               Inr (d\<lparr>resumes :=
                        updateOne (\<lambda>r. r_user r = uid) (set_paths now upd) (resumes d)\<rparr>,
                    set_paths now upd r)
           | None \<Rightarrow>
               let inserted = set_paths now upd (new_Resume (next_oid d) uid now)
               in Inr (d\<lparr>resumes := resumes d @ [inserted], next_oid := Suc (next_oid d)\<rparr>,
                       inserted)))"

definition saveResume :: "nat \<Rightarrow> db \<Rightarrow> req_user \<Rightarrow> resume_body \<Rightarrow> db \<times> response" where
  "saveResume now d u b =
     (let resumeData = b\<lparr>res_user := Some (ru_id u)\<rparr>
      in case findOneAndUpdate now (ru_id u) resumeData d of
           Inr (d', updatedResume) \<Rightarrow>
             (d', \<lparr>status = 201,
                   body = ResumeBody ''Resume saved successfully!'' updatedResume\<rparr>)
         | Inl error \<Rightarrow> (d, \<lparr>status = 500, body = Message ''Failed to save resume.''\<rparr>))"

subsection \<open>\<^verbatim>\<open>POST /jobs\<close>\<close>

record job_body =
  jb_recruiter :: "oid option"
  jb_jobTitle :: "string option"
  jb_department :: "string option"
  jb_reportsTo :: "string option"
  jb_location :: "string option"
  jb_employmentType :: "string option"
  jb_jobSummary :: "string option"
  jb_keyResponsibilities :: "string list option"
  jb_requiredQualifications :: "string list option"
  jb_preferredQualifications :: "string list option"
  jb_coreCompetencies :: "string list option"
  jb_workEnvironment :: "string option"
  jb_compensationAndBenefits :: "string option"
  jb_applicationInstructions :: "string option"
  jb_companyName :: "string option"

definition employmentType_enum :: "string list" where
  "employmentType_enum = [''Full-time'', ''Part-time'', ''Contract'', ''Internship'']"

text \<open>
  \<^verbatim>\<open>required: true\<close> on a path of type \<^verbatim>\<open>String\<close>: Mongoose rejects the absent
  value and the empty string.
\<close>

definition required :: "string option \<Rightarrow> bool" where
  "required v = (case v of None \<Rightarrow> False | Some s \<Rightarrow> s \<noteq> [])"

text \<open>A list path that the body lacks is the empty list.\<close>

definition array_path :: "string list option \<Rightarrow> string list" where
  "array_path v = (case v of None \<Rightarrow> [] | Some xs \<Rightarrow> xs)"

text \<open>
  \<^verbatim>\<open>new Job(obj)\<close> followed by \<^verbatim>\<open>save()\<close>: the validators of \<^verbatim>\<open>jobSchema\<close> run,
  and the document is what is inserted when they pass.
\<close>

definition validate_Job :: "oid \<Rightarrow> job_body \<Rightarrow> error + job" where
  "validate_Job i b =
     (case (jb_recruiter b, jb_jobTitle b, jb_location b, jb_employmentType b,
            jb_jobSummary b, jb_companyName b) of
        (Some r, Some t, Some l, Some e, Some s, Some c) \<Rightarrow>
          if required (Some t) \<and> required (Some l) \<and> required (Some e)
             \<and> e \<in> set employmentType_enum \<and> required (Some s) \<and> required (Some c)
          then Inr \<lparr>j_id = i, recruiter = r, jobTitle = t,
                    department = jb_department b, reportsTo = jb_reportsTo b,
                    location = l, employmentType = e, jobSummary = s,
                    keyResponsibilities = array_path (jb_keyResponsibilities b),
                    requiredQualifications = array_path (jb_requiredQualifications b),
                    preferredQualifications = array_path (jb_preferredQualifications b),
                    coreCompetencies = array_path (jb_coreCompetencies b),
                    workEnvironment = jb_workEnvironment b,
                    compensationAndBenefits = jb_compensationAndBenefits b,
                    applicationInstructions = jb_applicationInstructions b,
                    companyName = c\<rparr>
          else Inl ValidationError
      | _ \<Rightarrow> Inl ValidationError)"

definition createJob :: "db \<Rightarrow> req_user \<Rightarrow> job_body \<Rightarrow> db \<times> response" where
  "createJob d u b =
     (let newJob = b\<lparr>jb_recruiter := Some (ru_id u)\<rparr>;
          d1 = d\<lparr>next_oid := Suc (next_oid d)\<rparr>
      in case validate_Job (next_oid d) newJob of
           Inl err \<Rightarrow> (d1, Server_Error err)
         | Inr job0 \<Rightarrow> (d1\<lparr>jobs := jobs d1 @ [job0]\<rparr>, \<lparr>status = 201, body = JobBody job0\<rparr>))"

subsection \<open>\<^verbatim>\<open>DELETE /jobs/:id\<close>\<close>

definition deleteJob :: "db \<Rightarrow> req_user \<Rightarrow> oid \<Rightarrow> db \<times> response" where
  "deleteJob d u jid =
     (case find (\<lambda>j. j_id j = jid) (jobs d) of
        None \<Rightarrow> (d, \<lparr>status = 404, body = Msg ''Job not found''\<rparr>)
      | Some job0 \<Rightarrow>
          if recruiter job0 \<noteq> ru_id u
          then (d, \<lparr>status = 401, body = Msg ''User not authorized''\<rparr>)
          else (d\<lparr>jobs := deleteOne (\<lambda>j. j_id j = jid) (jobs d),
                  applications := deleteMany (\<lambda>a. a_job a = jid) (applications d)\<rparr>,
                \<lparr>status = 200, body = Msg ''Job removed''\<rparr>))"

subsection \<open>\<^verbatim>\<open>POST /api/jobs/:id/apply\<close>\<close>

text \<open>
  \<^verbatim>\<open>new Application({job, candidate, resume})\<close>: the three required paths are given,
  and \<^verbatim>\<open>status\<close> takes its default.
\<close>

definition new_Application :: "oid \<Rightarrow> oid \<Rightarrow> oid \<Rightarrow> oid \<Rightarrow> application" where
  "new_Application i jid cid rid =
     \<lparr>a_id = i, a_job = jid, a_candidate = cid, a_resume = rid, a_status = Submitted\<rparr>"

definition applyToJob :: "db \<Rightarrow> req_user \<Rightarrow> oid \<Rightarrow> db \<times> response" where
  "applyToJob d u jid =
     (case find (\<lambda>j. j_id j = jid) (jobs d) of
        None \<Rightarrow> (d, \<lparr>status = 404, body = Msg ''Job not found''\<rparr>)
      | Some job0 \<Rightarrow>
          (case find (\<lambda>r. r_user r = ru_id u) (resumes d) of
             None \<Rightarrow> (d, \<lparr>status = 400, body = Msg ''You must have a saved resume to apply.''\<rparr>)
           | Some resume0 \<Rightarrow>
               (case find (\<lambda>a. a_job a = jid \<and> a_candidate a = ru_id u) (applications d) of
                  Some existingApplication \<Rightarrow>
                    (d, \<lparr>status = 400, body = Msg ''You have already applied for this job.''\<rparr>)
                | None \<Rightarrow>
                    let newApplication =
                          new_Application (next_oid d) jid (ru_id u) (r_id resume0)
                    in (d\<lparr>applications := applications d @ [newApplication],
                           next_oid := Suc (next_oid d)\<rparr>,
                        \<lparr>status = 201, body = Msg ''Application submitted successfully!''\<rparr>))))"

subsection \<open>\<^verbatim>\<open>PUT /api/users/:id/role\<close>\<close>

definition roles :: "string list" where
  "roles = [''Candidate'', ''Recruiter'', ''Admin'']"

text \<open>
  \<^verbatim>\<open>user.save({validateModifiedOnly: true})\<close> validates the one modified path,
  \<^verbatim>\<open>role\<close>, and writes it to the stored document; the pre-save hook is taken to
  leave a password that was not modified as it is.
\<close>

definition changeRole :: "config \<Rightarrow> db \<Rightarrow> req_user \<Rightarrow> oid \<Rightarrow> string option \<Rightarrow> db \<times> response" where
  "changeRole cfg d u i r =
     (if r \<notin> set (map Some roles)
      then (d, \<lparr>status = 400, body = Msg ''Invalid role specified.''\<rparr>)
      else case find (\<lambda>x. u_id x = i) (users d) of
             None \<Rightarrow> (d, \<lparr>status = 404, body = Msg ''User not found''\<rparr>)
           | Some user0 \<Rightarrow>
               if u_id user0 = ru_id u
               then (d, \<lparr>status = 400, body = Msg ''You cannot change your own role.''\<rparr>)
               else if valid_role cfg r
                 then (d\<lparr>users := updateOne (\<lambda>x. u_id x = i) (\<lambda>x. x\<lparr>role := r\<rparr>) (users d)\<rparr>,
                       \<lparr>status = 200, body = UserBody (user0\<lparr>role := r\<rparr>)\<rparr>)
                 else (d, Server_Error ValidationError))"

subsection \<open>Routes\<close>

text \<open>
  \<^verbatim>\<open>app.METHOD(path, auth, guard, handler)\<close>: the first middleware that answers ends
  the request and the database is as it was.
\<close>

definition route ::
  "config \<Rightarrow> nat \<Rightarrow> token option \<Rightarrow> (req_user \<Rightarrow> response option) \<Rightarrow> db
     \<Rightarrow> (req_user \<Rightarrow> db \<times> response) \<Rightarrow> db \<times> response" where
  "route cfg now hdr guard d handler =
     (case auth cfg now hdr of
        Inl denied \<Rightarrow> (d, denied)
      | Inr u \<Rightarrow> (case guard u of Some denied \<Rightarrow> (d, denied) | None \<Rightarrow> handler u))"

definition post_api_resume :: "config \<Rightarrow> nat \<Rightarrow> token option \<Rightarrow> db \<Rightarrow> resume_body \<Rightarrow> db \<times> response" where
  "post_api_resume cfg now hdr d b = route cfg now hdr isCandidate d (\<lambda>u. saveResume now d u b)"

definition post_jobs :: "config \<Rightarrow> nat \<Rightarrow> token option \<Rightarrow> db \<Rightarrow> job_body \<Rightarrow> db \<times> response" where
  "post_jobs cfg now hdr d b = route cfg now hdr isRecruiter d (\<lambda>u. createJob d u b)"

definition delete_jobs :: "config \<Rightarrow> nat \<Rightarrow> token option \<Rightarrow> db \<Rightarrow> oid \<Rightarrow> db \<times> response" where
  "delete_jobs cfg now hdr d jid = route cfg now hdr isRecruiter d (\<lambda>u. deleteJob d u jid)"

definition post_api_jobs_apply :: "config \<Rightarrow> nat \<Rightarrow> token option \<Rightarrow> db \<Rightarrow> oid \<Rightarrow> db \<times> response" where
  "post_api_jobs_apply cfg now hdr d jid = route cfg now hdr isCandidate d (\<lambda>u. applyToJob d u jid)"

definition put_api_users_role ::
  "config \<Rightarrow> nat \<Rightarrow> token option \<Rightarrow> db \<Rightarrow> oid \<Rightarrow> string option \<Rightarrow> db \<times> response" where
  "put_api_users_role cfg now hdr d i r =
     route cfg now hdr isAdmin d (\<lambda>u. changeRole cfg d u i r)"

subsection \<open>Sample data\<close>

text \<open>A configuration, users, a job and request bodies on which the theorems are run.\<close>

definition sample_config :: config where
  "sample_config =
     \<lparr>JWT_SECRET = ''k1'',
      bcrypt_compare = (\<lambda>pw h. h = rev pw),
      valid_username = (\<lambda>s. s \<noteq> []),
      valid_password = (\<lambda>s. s \<noteq> []),
      valid_role = (\<lambda>r. r \<in> set (map Some roles)),
      default_role = Some ''Candidate'',
      hash_password = rev\<rparr>"

definition empty_db :: db where
  "empty_db =
     \<lparr>users = [], profiles = [], resumes = [], jobs = [], applications = [], next_oid = 0\<rparr>"

definition alice :: user where
  "alice = \<lparr>u_id = 1, username = ''alice'', password = ''terces'',
             role = Some ''Candidate'', recruiterProfile = None\<rparr>"

definition carol :: user where
  "carol = \<lparr>u_id = 2, username = ''carol'', password = ''nimda'',
            role = Some ''Admin'', recruiterProfile = None\<rparr>"

definition sample_job_body :: job_body where
  "sample_job_body =
     \<lparr>jb_recruiter = None, jb_jobTitle = Some ''Engineer'', jb_department = None,
      jb_reportsTo = None, jb_location = Some ''Remote'',
      jb_employmentType = Some ''Contract'', jb_jobSummary = Some ''Proofs'',
      jb_keyResponsibilities = Some [''Prove''], jb_requiredQualifications = None,
      jb_preferredQualifications = None, jb_coreCompetencies = None,
      jb_workEnvironment = None, jb_compensationAndBenefits = None,
      jb_applicationInstructions = None, jb_companyName = Some ''ACME''\<rparr>"

definition sample_job :: job where
  "sample_job =
     \<lparr>j_id = 5, recruiter = 3, jobTitle = ''Engineer'', department = None,
      reportsTo = None, location = ''Remote'', employmentType = ''Contract'',
      jobSummary = ''Proofs'', keyResponsibilities = [''Prove''],
      requiredQualifications = [], preferredQualifications = [], coreCompetencies = [],
      workEnvironment = None, compensationAndBenefits = None,
      applicationInstructions = None, companyName = ''ACME''\<rparr>"

definition alice_resume :: resume where
  "alice_resume =
     \<lparr>r_id = 6, r_user = 1, personalInfo = None, summary = Some ''Prover'',
      experience = [], education = [], skills = [], projects = [], links = [], awards = [],
      template = ''classic'', createdAt = 50, updatedAt = 50\<rparr>"

definition sample_db :: db where
  "sample_db =
     \<lparr>users = [alice, carol], profiles = [], resumes = [alice_resume], jobs = [sample_job],
      applications = [], next_oid = 10\<rparr>"

definition candidate1 :: req_user where
  "candidate1 = \<lparr>ru_id = 1, ru_role = Some ''Candidate''\<rparr>"

definition recruiter3 :: req_user where
  "recruiter3 = \<lparr>ru_id = 3, ru_role = Some ''Recruiter''\<rparr>"

definition candidate1_token :: token where
  "candidate1_token =
     Signed \<lparr>jwt_user = candidate1, iat = 100, exp = 18100, signed_with = ''k1''\<rparr>"

definition recruiter3_token :: token where
  "recruiter3_token =
     Signed \<lparr>jwt_user = recruiter3, iat = 100, exp = 18100, signed_with = ''k1''\<rparr>"

definition no_paths :: resume_body where
  "no_paths =
     \<lparr>res_user = None, res_personalInfo = None, res_summary = None, res_experience = None,
      res_education = None, res_skills = None, res_projects = None, res_links = None,
      res_awards = None, res_template = None\<rparr>"


definition resume_v2 :: resume_body where
  "resume_v2 = no_paths\<lparr>res_summary := Some (Castable ''v2'')\<rparr>"

section \<open>Properties\<close>

subsection \<open>Store operations\<close>

lemma find_None_iff_ball: "find P xs = None \<longleftrightarrow> (\<forall>x\<in>set xs. \<not> P x)"
  by (induction xs) auto

lemma find_Some_ex: "(\<exists>x\<in>set xs. P x) \<Longrightarrow> \<exists>y. find P xs = Some y"
  by (cases "find P xs") (auto simp: find_None_iff_ball)

lemma find_Some_holds: "find P xs = Some x \<Longrightarrow> P x \<and> x \<in> set xs"
  by (induction xs) (auto split: if_splits)

lemma find_unique:
  assumes "x \<in> set xs" "P x" "\<forall>y\<in>set xs. P y \<longrightarrow> y = x"
  shows "find P xs = Some x"
proof (cases "find P xs")
  case None
  with assms(1,2) show ?thesis by (simp add: find_None_iff_ball)
next
  case (Some y)
  then have "y \<in> set xs" "P y" by (auto simp: find_Some_iff)
  with assms(3) have "y = x" by blast
  with Some show ?thesis by simp
qed

lemma find_distinct_key:
  "distinct (map k xs) \<Longrightarrow> x \<in> set xs \<Longrightarrow> find (\<lambda>y. k y = k x) xs = Some x"
  by (induction xs) (auto simp: image_iff)

lemma deleteOne_distinct:
  "distinct (map k xs) \<Longrightarrow> deleteOne (\<lambda>y. k y = i) xs = filter (\<lambda>y. k y \<noteq> i) xs"
proof (induction xs)
  case Nil
  then show ?case by simp
next
  case (Cons x xs)
  show ?case
  proof (cases "k x = i")
    case True
    from Cons.prems have "k x \<notin> k ` set xs" by simp
    with True have "\<forall>y\<in>set xs. k y \<noteq> i" by blast
    then have "filter (\<lambda>y. k y \<noteq> i) xs = xs" by (simp add: filter_id_conv)
    with True show ?thesis by simp
  next
    case False
    with Cons show ?thesis by simp
  qed
qed


lemma filter_updateOne:
  "(\<And>x. P x \<Longrightarrow> P (f x)) \<Longrightarrow>
     filter (\<lambda>x. \<not> P x) (updateOne P f xs) = filter (\<lambda>x. \<not> P x) xs"
  by (induction xs) simp_all

lemma updateOne_idem:
  "(\<And>x. P x \<Longrightarrow> P (f x)) \<Longrightarrow> (\<And>x. P x \<Longrightarrow> f (f x) = f x) \<Longrightarrow>
     updateOne P f (updateOne P f xs) = updateOne P f xs"
  by (induction xs) simp_all

lemma find_updateOne:
  "(\<And>x. P x \<Longrightarrow> P (f x)) \<Longrightarrow> find P (updateOne P f xs) = map_option f (find P xs)"
  by (induction xs) simp_all

lemma find_append_last:
  "find P xs = None \<Longrightarrow> P y \<Longrightarrow> find P (xs @ [y]) = Some y"
  by (induction xs) (simp_all split: if_splits)

lemma updateOne_append_last:
  "find P xs = None \<Longrightarrow> P y \<Longrightarrow> updateOne P f (xs @ [y]) = xs @ [f y]"
  by (induction xs) (simp_all split: if_splits)

lemma updateOne_found: "find P xs = Some x \<Longrightarrow> f x \<in> set (updateOne P f xs)"
  by (induction xs) (auto split: if_splits)


subsection \<open>Applying for a job\<close>

lemma applyToJob_no_job:
  "\<forall>j\<in>set (jobs d). j_id j \<noteq> jid \<Longrightarrow>
     applyToJob d u jid = (d, \<lparr>status = 404, body = Msg ''Job not found''\<rparr>)"
proof -
  assume "\<forall>j\<in>set (jobs d). j_id j \<noteq> jid"
  then have "find (\<lambda>j. j_id j = jid) (jobs d) = None"
    by (simp add: find_None_iff_ball)
  then show ?thesis by (simp add: applyToJob_def)
qed

lemma applyToJob_no_resume:
  assumes "\<exists>j\<in>set (jobs d). j_id j = jid" "\<forall>r\<in>set (resumes d). r_user r \<noteq> ru_id u"
  shows "applyToJob d u jid =
           (d, \<lparr>status = 400, body = Msg ''You must have a saved resume to apply.''\<rparr>)"
proof -
  from assms(1) obtain j where "find (\<lambda>j. j_id j = jid) (jobs d) = Some j"
    using find_Some_ex [of "jobs d" "\<lambda>j. j_id j = jid"] by blast
  moreover from assms(2) have "find (\<lambda>r. r_user r = ru_id u) (resumes d) = None"
    by (simp add: find_None_iff_ball)
  ultimately show ?thesis by (simp add: applyToJob_def)
qed

lemma applyToJob_again:
  assumes "\<exists>j\<in>set (jobs d). j_id j = jid" "\<exists>r\<in>set (resumes d). r_user r = ru_id u"
    "\<exists>a\<in>set (applications d). a_job a = jid \<and> a_candidate a = ru_id u"
  shows "applyToJob d u jid =
           (d, \<lparr>status = 400, body = Msg ''You have already applied for this job.''\<rparr>)"
proof -
  from assms(1) obtain j where "find (\<lambda>j. j_id j = jid) (jobs d) = Some j"
    using find_Some_ex [of "jobs d" "\<lambda>j. j_id j = jid"] by blast
  moreover from assms(2) obtain r where "find (\<lambda>r. r_user r = ru_id u) (resumes d) = Some r"
    using find_Some_ex [of "resumes d" "\<lambda>r. r_user r = ru_id u"] by blast
  moreover from assms(3) obtain a
    where "find (\<lambda>a. a_job a = jid \<and> a_candidate a = ru_id u) (applications d) = Some a"
    using find_Some_ex [of "applications d" "\<lambda>a. a_job a = jid \<and> a_candidate a = ru_id u"]
    by blast
  ultimately show ?thesis by (simp add: applyToJob_def)
qed

lemma applyToJob_new:
  assumes "\<exists>j\<in>set (jobs d). j_id j = jid"
    and "cv \<in> set (resumes d)" "r_user cv = ru_id u"
    and "\<forall>r\<in>set (resumes d). r_user r = ru_id u \<longrightarrow> r = cv"
    and "\<forall>a\<in>set (applications d). \<not> (a_job a = jid \<and> a_candidate a = ru_id u)"
  shows "applyToJob d u jid =
           (d\<lparr>applications := applications d @
                 [\<lparr>a_id = next_oid d, a_job = jid, a_candidate = ru_id u,
                   a_resume = r_id cv, a_status = Submitted\<rparr>],
              next_oid := Suc (next_oid d)\<rparr>,
            \<lparr>status = 201, body = Msg ''Application submitted successfully!''\<rparr>)"
proof -
  from assms(1) obtain j where "find (\<lambda>j. j_id j = jid) (jobs d) = Some j"
    using find_Some_ex [of "jobs d" "\<lambda>j. j_id j = jid"] by blast
  moreover from assms(2,3,4) have "find (\<lambda>r. r_user r = ru_id u) (resumes d) = Some cv"
    by (rule find_unique [where P = "\<lambda>r. r_user r = ru_id u"])
  moreover from assms(5)
  have "find (\<lambda>a. a_job a = jid \<and> a_candidate a = ru_id u) (applications d) = None"
    by (simp add: find_None_iff_ball)
  ultimately show ?thesis by (simp add: applyToJob_def new_Application_def)
qed

lemma applyToJob_twice:
  assumes "applyToJob d u jid = (d', resp)" "status resp = 201"
  shows "applyToJob d' u jid =
           (d', \<lparr>status = 400, body = Msg ''You have already applied for this job.''\<rparr>)"
proof -
  from assms obtain j r where j: "find (\<lambda>j. j_id j = jid) (jobs d) = Some j"
    and r: "find (\<lambda>r. r_user r = ru_id u) (resumes d) = Some r"
    and d': "d' = d\<lparr>applications := applications d @
                 [new_Application (next_oid d) jid (ru_id u) (r_id r)],
              next_oid := Suc (next_oid d)\<rparr>"
    by (auto simp: applyToJob_def Let_def split: option.splits)
  from j have "\<exists>j\<in>set (jobs d'). j_id j = jid"
    by (auto simp: d' find_Some_iff)
  moreover from r have "\<exists>r\<in>set (resumes d'). r_user r = ru_id u"
    by (auto simp: d' find_Some_iff)
  moreover have "\<exists>a\<in>set (applications d'). a_job a = jid \<and> a_candidate a = ru_id u"
    by (simp add: d' new_Application_def)
  ultimately show ?thesis by (rule applyToJob_again)
qed

lemma applyToJob_unchanged:
  "status (snd (applyToJob d u jid)) \<noteq> 201 \<Longrightarrow> fst (applyToJob d u jid) = d"
  by (simp add: applyToJob_def Let_def split: option.splits)

lemma applyToJob_created_iff:
  "status (snd (applyToJob d u jid)) = 201 \<longleftrightarrow>
     (\<exists>j\<in>set (jobs d). j_id j = jid) \<and> (\<exists>r\<in>set (resumes d). r_user r = ru_id u)
     \<and> (\<forall>a\<in>set (applications d). \<not> (a_job a = jid \<and> a_candidate a = ru_id u))"
proof (cases "find (\<lambda>j. j_id j = jid) (jobs d)")
  case None
  then have "\<not> (\<exists>j\<in>set (jobs d). j_id j = jid)"
    by (simp add: find_None_iff_ball)
  with None show ?thesis by (simp add: applyToJob_def)
next
  case j: (Some job0)
  then have job: "\<exists>j\<in>set (jobs d). j_id j = jid"
    by (blast dest: find_Some_holds)
  show ?thesis
  proof (cases "find (\<lambda>r. r_user r = ru_id u) (resumes d)")
    case None
    then have "\<not> (\<exists>r\<in>set (resumes d). r_user r = ru_id u)"
      by (simp add: find_None_iff_ball)
    with j None show ?thesis by (simp add: applyToJob_def)
  next
    case r: (Some resume0)
    then have cv: "\<exists>r\<in>set (resumes d). r_user r = ru_id u"
      by (blast dest: find_Some_holds)
    show ?thesis
    proof (cases "find (\<lambda>a. a_job a = jid \<and> a_candidate a = ru_id u) (applications d)")
      case None
      then have "\<forall>a\<in>set (applications d). \<not> (a_job a = jid \<and> a_candidate a = ru_id u)"
        by (simp add: find_None_iff_ball)
      with job cv have rhs: "(\<exists>j\<in>set (jobs d). j_id j = jid)
          \<and> (\<exists>r\<in>set (resumes d). r_user r = ru_id u)
          \<and> (\<forall>a\<in>set (applications d). \<not> (a_job a = jid \<and> a_candidate a = ru_id u))"
        by blast
      from j r None have "status (snd (applyToJob d u jid)) = 201"
        by (simp add: applyToJob_def Let_def)
      with rhs show ?thesis by blast
    next
      case (Some existing)
      then have "\<exists>a\<in>set (applications d). a_job a = jid \<and> a_candidate a = ru_id u"
        by (blast dest: find_Some_holds)
      then have "\<not> (\<forall>a\<in>set (applications d). \<not> (a_job a = jid \<and> a_candidate a = ru_id u))"
        by blast
      moreover from j r Some have "status (snd (applyToJob d u jid)) \<noteq> 201"
        by (simp add: applyToJob_def)
      ultimately show ?thesis by blast
    qed
  qed
qed

text \<open>
  Claim C1. \<^verbatim>\<open>apply(candidateId, jobId)\<close>, in the order of the handler's checks:
  with no job of that id the answer is 404 \<^verbatim>\<open>Job not found\<close> (NotFound); with the job
  but no resume of the candidate it is 400 \<^verbatim>\<open>You must have a saved resume to apply.\<close>
  (PreconditionFailed); with the job, a resume and an application of that candidate for
  that job it is 400 \<^verbatim>\<open>You have already applied for this job.\<close> (Conflict); in
  these three cases the database is as before. Otherwise exactly one application is
  appended: its \<^verbatim>\<open>resume\<close> is the id of the candidate's resume and its status is
  \<open>Submitted\<close>. A second call after a successful one is answered with the Conflict
  response and adds nothing. The database changes only with the 201 response, and that
  response is given exactly when the job exists, the candidate has a resume and has not
  applied for the job before.
\<close>

theorem apply_outcomes:
  "((\<forall>j\<in>set (jobs d). j_id j \<noteq> jid) \<longrightarrow>
      applyToJob d u jid = (d, \<lparr>status = 404, body = Msg ''Job not found''\<rparr>))
   \<and> ((\<exists>j\<in>set (jobs d). j_id j = jid) \<and> (\<forall>r\<in>set (resumes d). r_user r \<noteq> ru_id u) \<longrightarrow>
      applyToJob d u jid =
        (d, \<lparr>status = 400, body = Msg ''You must have a saved resume to apply.''\<rparr>))
   \<and> ((\<exists>j\<in>set (jobs d). j_id j = jid) \<and> (\<exists>r\<in>set (resumes d). r_user r = ru_id u)
       \<and> (\<exists>a\<in>set (applications d). a_job a = jid \<and> a_candidate a = ru_id u) \<longrightarrow>
      applyToJob d u jid =
        (d, \<lparr>status = 400, body = Msg ''You have already applied for this job.''\<rparr>))
   \<and> ((\<exists>j\<in>set (jobs d). j_id j = jid)
       \<and> cv \<in> set (resumes d) \<and> r_user cv = ru_id u
       \<and> (\<forall>r\<in>set (resumes d). r_user r = ru_id u \<longrightarrow> r = cv)
       \<and> (\<forall>a\<in>set (applications d). \<not> (a_job a = jid \<and> a_candidate a = ru_id u)) \<longrightarrow>
      applyToJob d u jid =
        (d\<lparr>applications := applications d @
              [\<lparr>a_id = next_oid d, a_job = jid, a_candidate = ru_id u,
                a_resume = r_id cv, a_status = Submitted\<rparr>],
           next_oid := Suc (next_oid d)\<rparr>,
         \<lparr>status = 201, body = Msg ''Application submitted successfully!''\<rparr>))
   \<and> (applyToJob d u jid = (d', resp) \<and> status resp = 201 \<longrightarrow>
      applyToJob d' u jid =
        (d', \<lparr>status = 400, body = Msg ''You have already applied for this job.''\<rparr>))
   \<and> (status (snd (applyToJob d u jid)) \<noteq> 201 \<longrightarrow> fst (applyToJob d u jid) = d)
   \<and> (status (snd (applyToJob d u jid)) = 201 \<longleftrightarrow>
        (\<exists>j\<in>set (jobs d). j_id j = jid) \<and> (\<exists>r\<in>set (resumes d). r_user r = ru_id u)
        \<and> (\<forall>a\<in>set (applications d). \<not> (a_job a = jid \<and> a_candidate a = ru_id u)))"
proof (intro conjI impI)
  assume "\<forall>j\<in>set (jobs d). j_id j \<noteq> jid"
  then show "applyToJob d u jid = (d, \<lparr>status = 404, body = Msg ''Job not found''\<rparr>)"
    by (rule applyToJob_no_job)
next
  assume "(\<exists>j\<in>set (jobs d). j_id j = jid) \<and> (\<forall>r\<in>set (resumes d). r_user r \<noteq> ru_id u)"
  then show "applyToJob d u jid =
        (d, \<lparr>status = 400, body = Msg ''You must have a saved resume to apply.''\<rparr>)"
    using applyToJob_no_resume [of d jid u] by (elim conjE)
next
  assume "(\<exists>j\<in>set (jobs d). j_id j = jid) \<and> (\<exists>r\<in>set (resumes d). r_user r = ru_id u)
       \<and> (\<exists>a\<in>set (applications d). a_job a = jid \<and> a_candidate a = ru_id u)"
  then show "applyToJob d u jid =
        (d, \<lparr>status = 400, body = Msg ''You have already applied for this job.''\<rparr>)"
    using applyToJob_again [of d jid u] by (elim conjE)
next
  assume "(\<exists>j\<in>set (jobs d). j_id j = jid)
       \<and> cv \<in> set (resumes d) \<and> r_user cv = ru_id u
       \<and> (\<forall>r\<in>set (resumes d). r_user r = ru_id u \<longrightarrow> r = cv)
       \<and> (\<forall>a\<in>set (applications d). \<not> (a_job a = jid \<and> a_candidate a = ru_id u))"
  then show "applyToJob d u jid =
        (d\<lparr>applications := applications d @
              [\<lparr>a_id = next_oid d, a_job = jid, a_candidate = ru_id u,
                a_resume = r_id cv, a_status = Submitted\<rparr>],
           next_oid := Suc (next_oid d)\<rparr>,
         \<lparr>status = 201, body = Msg ''Application submitted successfully!''\<rparr>)"
    using applyToJob_new [of d jid cv u] by (elim conjE)
next
  assume "applyToJob d u jid = (d', resp) \<and> status resp = 201"
  then show "applyToJob d' u jid =
        (d', \<lparr>status = 400, body = Msg ''You have already applied for this job.''\<rparr>)"
    using applyToJob_twice [of d u jid d' resp] by (elim conjE)
next
  assume "status (snd (applyToJob d u jid)) \<noteq> 201"
  then show "fst (applyToJob d u jid) = d"
    by (rule applyToJob_unchanged)
next
  show "status (snd (applyToJob d u jid)) = 201 \<longleftrightarrow>
        (\<exists>j\<in>set (jobs d). j_id j = jid) \<and> (\<exists>r\<in>set (resumes d). r_user r = ru_id u)
        \<and> (\<forall>a\<in>set (applications d). \<not> (a_job a = jid \<and> a_candidate a = ru_id u))"
    by (rule applyToJob_created_iff)
qed

theorem apply_outcomes_witness:
  "applyToJob empty_db candidate1 5 = (empty_db, \<lparr>status = 404, body = Msg ''Job not found''\<rparr>)
   \<and> applyToJob (sample_db\<lparr>resumes := []\<rparr>) candidate1 5
       = (sample_db\<lparr>resumes := []\<rparr>,
          \<lparr>status = 400, body = Msg ''You must have a saved resume to apply.''\<rparr>)
   \<and> applyToJob sample_db candidate1 5
       = (sample_db\<lparr>applications :=
              [\<lparr>a_id = 10, a_job = 5, a_candidate = 1, a_resume = 6, a_status = Submitted\<rparr>],
              next_oid := 11\<rparr>,
          \<lparr>status = 201, body = Msg ''Application submitted successfully!''\<rparr>)
   \<and> applyToJob
         (sample_db\<lparr>applications :=
              [\<lparr>a_id = 10, a_job = 5, a_candidate = 1, a_resume = 6, a_status = Submitted\<rparr>],
              next_oid := 11\<rparr>) candidate1 5
       = (sample_db\<lparr>applications :=
              [\<lparr>a_id = 10, a_job = 5, a_candidate = 1, a_resume = 6, a_status = Submitted\<rparr>],
              next_oid := 11\<rparr>,
          \<lparr>status = 400, body = Msg ''You have already applied for this job.''\<rparr>)"
  using apply_outcomes [where d = empty_db and u = candidate1 and jid = 5]
    apply_outcomes [where d = "sample_db\<lparr>resumes := []\<rparr>" and u = candidate1 and jid = 5]
    apply_outcomes [where d = sample_db and u = candidate1 and jid = 5 and cv = alice_resume
      and d' = "sample_db\<lparr>applications :=
              [\<lparr>a_id = 10, a_job = 5, a_candidate = 1, a_resume = 6, a_status = Submitted\<rparr>],
              next_oid := 11\<rparr>"
      and resp = "\<lparr>status = 201, body = Msg ''Application submitted successfully!''\<rparr>"]
  by (simp add: empty_db_def sample_db_def candidate1_def sample_job_def alice_resume_def)

subsection \<open>Deleting a job\<close>

text \<open>
  Claim C2. \<^verbatim>\<open>deleteJob(recruiterId, jobId)\<close>: with no job of that id the answer is
  404 \<^verbatim>\<open>Job not found\<close>; when the job's \<^verbatim>\<open>recruiter\<close> is not the caller it is
  401 \<^verbatim>\<open>User not authorized\<close>; in both cases the database is as before. When the
  caller owns the job, the job is removed, the applications left are exactly those whose
  \<^verbatim>\<open>job\<close> is another id, unchanged and in their order, and nothing else changes.
  Job ids are unique in the collection.
\<close>

theorem deleteJob_outcomes:
  "((\<forall>j\<in>set (jobs d). j_id j \<noteq> jid) \<longrightarrow>
      deleteJob d u jid = (d, \<lparr>status = 404, body = Msg ''Job not found''\<rparr>))
   \<and> (distinct (map j_id (jobs d)) \<and> j \<in> set (jobs d) \<and> j_id j = jid
       \<and> recruiter j \<noteq> ru_id u \<longrightarrow>
      deleteJob d u jid = (d, \<lparr>status = 401, body = Msg ''User not authorized''\<rparr>))
   \<and> (distinct (map j_id (jobs d)) \<and> j \<in> set (jobs d) \<and> j_id j = jid
       \<and> recruiter j = ru_id u \<longrightarrow>
      deleteJob d u jid =
        (d\<lparr>jobs := filter (\<lambda>x. x \<noteq> j) (jobs d),
           applications := filter (\<lambda>a. a_job a \<noteq> jid) (applications d)\<rparr>,
         \<lparr>status = 200, body = Msg ''Job removed''\<rparr>))"
proof (intro conjI impI)
  assume "\<forall>j\<in>set (jobs d). j_id j \<noteq> jid"
  then have "find (\<lambda>j. j_id j = jid) (jobs d) = None"
    by (simp add: find_None_iff_ball)
  then show "deleteJob d u jid = (d, \<lparr>status = 404, body = Msg ''Job not found''\<rparr>)"
    by (simp add: deleteJob_def)
next
  assume a: "distinct (map j_id (jobs d)) \<and> j \<in> set (jobs d) \<and> j_id j = jid
       \<and> recruiter j \<noteq> ru_id u"
  then have "find (\<lambda>x. j_id x = jid) (jobs d) = Some j"
    using find_distinct_key [of j_id "jobs d" j] by auto
  with a show "deleteJob d u jid = (d, \<lparr>status = 401, body = Msg ''User not authorized''\<rparr>)"
    by (simp add: deleteJob_def)
next
  assume a: "distinct (map j_id (jobs d)) \<and> j \<in> set (jobs d) \<and> j_id j = jid
       \<and> recruiter j = ru_id u"
  then have found: "find (\<lambda>x. j_id x = jid) (jobs d) = Some j"
    using find_distinct_key [of j_id "jobs d" j] by auto
  from a have "\<forall>x\<in>set (jobs d). (j_id x \<noteq> jid) = (x \<noteq> j)"
    by (auto simp: distinct_map inj_on_def)
  then have "filter (\<lambda>x. j_id x \<noteq> jid) (jobs d) = filter (\<lambda>x. x \<noteq> j) (jobs d)"
    by (auto intro: filter_cong)
  with a have "deleteOne (\<lambda>x. j_id x = jid) (jobs d) = filter (\<lambda>x. x \<noteq> j) (jobs d)"
    by (simp add: deleteOne_distinct)
  with found a show "deleteJob d u jid =
        (d\<lparr>jobs := filter (\<lambda>x. x \<noteq> j) (jobs d),
           applications := filter (\<lambda>a. a_job a \<noteq> jid) (applications d)\<rparr>,
         \<lparr>status = 200, body = Msg ''Job removed''\<rparr>)"
    by (simp add: deleteJob_def deleteMany_def)
qed

theorem deleteJob_outcomes_witness:
  "deleteJob sample_db recruiter3 99 = (sample_db, \<lparr>status = 404, body = Msg ''Job not found''\<rparr>)
   \<and> deleteJob sample_db \<lparr>ru_id = 4, ru_role = Some ''Recruiter''\<rparr> 5
       = (sample_db, \<lparr>status = 401, body = Msg ''User not authorized''\<rparr>)
   \<and> deleteJob
         (sample_db\<lparr>applications :=
            [\<lparr>a_id = 7, a_job = 5, a_candidate = 1, a_resume = 6, a_status = Submitted\<rparr>,
             \<lparr>a_id = 8, a_job = 9, a_candidate = 1, a_resume = 6, a_status = Viewed\<rparr>]\<rparr>)
         recruiter3 5
       = (sample_db\<lparr>jobs := [], applications :=
            [\<lparr>a_id = 8, a_job = 9, a_candidate = 1, a_resume = 6, a_status = Viewed\<rparr>]\<rparr>,
          \<lparr>status = 200, body = Msg ''Job removed''\<rparr>)"
  using deleteJob_outcomes [where d = sample_db and u = recruiter3 and jid = 99]
    deleteJob_outcomes [where d = sample_db and u = "\<lparr>ru_id = 4, ru_role = Some ''Recruiter''\<rparr>"
      and jid = 5 and j = sample_job]
    deleteJob_outcomes [where d = "sample_db\<lparr>applications :=
            [\<lparr>a_id = 7, a_job = 5, a_candidate = 1, a_resume = 6, a_status = Submitted\<rparr>,
             \<lparr>a_id = 8, a_job = 9, a_candidate = 1, a_resume = 6, a_status = Viewed\<rparr>]\<rparr>"
      and u = recruiter3 and jid = 5 and j = sample_job]
  by (simp add: sample_db_def recruiter3_def sample_job_def)

subsection \<open>Changing a role\<close>

lemma changeRole_invalid_role:
  "r \<notin> {Some ''Candidate'', Some ''Recruiter'', Some ''Admin''} \<Longrightarrow>
     changeRole cfg d u i r = (d, \<lparr>status = 400, body = Msg ''Invalid role specified.''\<rparr>)"
  by (simp add: changeRole_def roles_def)

lemma changeRole_self:
  assumes "r \<in> {Some ''Candidate'', Some ''Recruiter'', Some ''Admin''}"
    and "usr \<in> set (users d)" "u_id usr = ru_id u"
  shows "changeRole cfg d u (ru_id u) r =
           (d, \<lparr>status = 400, body = Msg ''You cannot change your own role.''\<rparr>)"
proof -
  from assms(2,3) obtain user0 where f: "find (\<lambda>x. u_id x = ru_id u) (users d) = Some user0"
    using find_Some_ex [of "users d" "\<lambda>x. u_id x = ru_id u"] by blast
  then have "u_id user0 = ru_id u" by (blast dest: find_Some_holds)
  with f assms(1) show ?thesis by (simp add: changeRole_def roles_def)
qed

text \<open>
  Claim C3, as the code has it. The role is checked first: with a role outside
  \<open>{Candidate, Recruiter, Admin}\<close> (or none) \<^verbatim>\<open>changeRole\<close> answers 400
  \<^verbatim>\<open>Invalid role specified.\<close> whatever the target is, the caller included. With a role
  of the set and the caller as target, where the caller's user document exists, it
  answers 400 \<^verbatim>\<open>You cannot change your own role.\<close> In both cases the database is as
  before.
\<close>

theorem changeRole_failures:
  "(r \<notin> {Some ''Candidate'', Some ''Recruiter'', Some ''Admin''} \<longrightarrow>
      changeRole cfg d u i r = (d, \<lparr>status = 400, body = Msg ''Invalid role specified.''\<rparr>))
   \<and> (r \<in> {Some ''Candidate'', Some ''Recruiter'', Some ''Admin''}
       \<and> usr \<in> set (users d) \<and> u_id usr = ru_id u \<longrightarrow>
      changeRole cfg d u (ru_id u) r =
        (d, \<lparr>status = 400, body = Msg ''You cannot change your own role.''\<rparr>))"
proof (intro conjI impI)
  assume "r \<notin> {Some ''Candidate'', Some ''Recruiter'', Some ''Admin''}"
  then show "changeRole cfg d u i r =
      (d, \<lparr>status = 400, body = Msg ''Invalid role specified.''\<rparr>)"
    by (rule changeRole_invalid_role)
next
  assume "r \<in> {Some ''Candidate'', Some ''Recruiter'', Some ''Admin''}
       \<and> usr \<in> set (users d) \<and> u_id usr = ru_id u"
  then show "changeRole cfg d u (ru_id u) r =
        (d, \<lparr>status = 400, body = Msg ''You cannot change your own role.''\<rparr>)"
    using changeRole_self [of r usr d u cfg] by (elim conjE)
qed

theorem changeRole_failures_witness:
  "changeRole sample_config (empty_db\<lparr>users := [alice, carol]\<rparr>)
       \<lparr>ru_id = 2, ru_role = Some ''Admin''\<rparr> 1 (Some ''Unicorn'')
     = (empty_db\<lparr>users := [alice, carol]\<rparr>,
        \<lparr>status = 400, body = Msg ''Invalid role specified.''\<rparr>)
   \<and> changeRole sample_config (empty_db\<lparr>users := [alice, carol]\<rparr>)
       \<lparr>ru_id = 2, ru_role = Some ''Admin''\<rparr> 2 (Some ''Candidate'')
     = (empty_db\<lparr>users := [alice, carol]\<rparr>,
        \<lparr>status = 400, body = Msg ''You cannot change your own role.''\<rparr>)"
  using changeRole_failures [of "Some ''Unicorn''" sample_config
      "empty_db\<lparr>users := [alice, carol]\<rparr>" "\<lparr>ru_id = 2, ru_role = Some ''Admin''\<rparr>" 1 carol]
    changeRole_failures [of "Some ''Candidate''" sample_config
      "empty_db\<lparr>users := [alice, carol]\<rparr>" "\<lparr>ru_id = 2, ru_role = Some ''Admin''\<rparr>" 1 carol]
  by (simp add: empty_db_def carol_def)

text \<open>
  An admin who sends the role \<^verbatim>\<open>Unicorn\<close> for their own account gets the InvalidRole
  answer, not the SelfModification one.
\<close>

theorem changeRole_self_invalid_role_counterexample:
  "changeRole sample_config (empty_db\<lparr>users := [alice, carol]\<rparr>)
       \<lparr>ru_id = 2, ru_role = Some ''Admin''\<rparr> 2 (Some ''Unicorn'')
     = (empty_db\<lparr>users := [alice, carol]\<rparr>,
        \<lparr>status = 400, body = Msg ''Invalid role specified.''\<rparr>)
   \<and> snd (changeRole sample_config (empty_db\<lparr>users := [alice, carol]\<rparr>)
            \<lparr>ru_id = 2, ru_role = Some ''Admin''\<rparr> 2 (Some ''Unicorn''))
     \<noteq> \<lparr>status = 400, body = Msg ''You cannot change your own role.''\<rparr>"
  by (simp add: changeRole_def roles_def)

subsection \<open>Creating a job\<close>

lemma validate_Job_invalid:
  assumes "jb_jobTitle b = None \<or> jb_location b = None \<or> jb_employmentType b = None
     \<or> jb_jobSummary b = None \<or> jb_companyName b = None
     \<or> jb_employmentType b
         \<notin> {Some ''Full-time'', Some ''Part-time'', Some ''Contract'', Some ''Internship''}"
  shows "validate_Job i b = Inl ValidationError"
  using assms
  by (auto simp: validate_Job_def employmentType_enum_def split: option.splits)

text \<open>
  Claim C4, as the code has it. When one of \<^verbatim>\<open>jobTitle\<close>, \<^verbatim>\<open>location\<close>,
  \<^verbatim>\<open>employmentType\<close>, \<^verbatim>\<open>jobSummary\<close>, \<^verbatim>\<open>companyName\<close> is missing from the
  body, or \<^verbatim>\<open>employmentType\<close> is outside its enumeration, \<^verbatim>\<open>createJob\<close> answers
  500 \<^verbatim>\<open>Server Error\<close>, which is the answer of its \<^verbatim>\<open>catch\<close> block to every
  error, and no job is created.
\<close>

theorem createJob_invalid:
  assumes "jb_jobTitle b = None \<or> jb_location b = None \<or> jb_employmentType b = None
     \<or> jb_jobSummary b = None \<or> jb_companyName b = None
     \<or> jb_employmentType b
         \<notin> {Some ''Full-time'', Some ''Part-time'', Some ''Contract'', Some ''Internship''}"
  shows "createJob d u b =
           (d\<lparr>next_oid := Suc (next_oid d)\<rparr>, \<lparr>status = 500, body = Text ''Server Error''\<rparr>)
         \<and> snd (createJob d u b) = Server_Error err
         \<and> jobs (fst (createJob d u b)) = jobs d"
proof -
  from assms have "validate_Job (next_oid d) (b\<lparr>jb_recruiter := Some (ru_id u)\<rparr>)
      = Inl ValidationError"
    by (intro validate_Job_invalid) simp
  then show ?thesis
    by (simp add: createJob_def Let_def Server_Error_def)
qed

theorem createJob_invalid_witness:
  "createJob empty_db \<lparr>ru_id = 3, ru_role = Some ''Recruiter''\<rparr>
       (sample_job_body\<lparr>jb_employmentType := Some ''Seasonal''\<rparr>)
     = (empty_db\<lparr>next_oid := 1\<rparr>, \<lparr>status = 500, body = Text ''Server Error''\<rparr>)
   \<and> jobs (fst (createJob empty_db \<lparr>ru_id = 3, ru_role = Some ''Recruiter''\<rparr>
       (sample_job_body\<lparr>jb_employmentType := Some ''Seasonal''\<rparr>))) = []"
  using createJob_invalid [of "sample_job_body\<lparr>jb_employmentType := Some ''Seasonal''\<rparr>"
      empty_db "\<lparr>ru_id = 3, ru_role = Some ''Recruiter''\<rparr>" MongoError]
  by (simp add: sample_job_body_def empty_db_def)

text \<open>
  A body without \<^verbatim>\<open>jobTitle\<close> is answered exactly as a failure of the store would be.
\<close>

theorem createJob_invalid_counterexample:
  "snd (createJob empty_db \<lparr>ru_id = 3, ru_role = Some ''Recruiter''\<rparr>
          (sample_job_body\<lparr>jb_jobTitle := None\<rparr>))
     = Server_Error MongoError"
  by (simp add: createJob_def Let_def Server_Error_def validate_Job_def sample_job_body_def)

subsection \<open>Logging in and verifying tokens\<close>

text \<open>
  Claim C5. A login with a username that no user has, and a login with the username of a
  user whose stored hash the secret does not match, get the same response: 400
  \<^verbatim>\<open>Invalid credentials\<close>. Usernames are unique in the second database.
\<close>

theorem login_failures_indistinguishable:
  assumes unknown: "\<forall>x\<in>set (users d1). username x \<noteq> un1"
    and uniq: "distinct (map username (users d2))"
    and known: "usr \<in> set (users d2)" "username usr = un2"
    and mismatch: "\<not> bcrypt_compare cfg pw2 (password usr)"
  shows "login cfg t1 d1 un1 pw1 = \<lparr>status = 400, body = Msg ''Invalid credentials''\<rparr>
         \<and> login cfg t2 d2 un2 pw2 = login cfg t1 d1 un1 pw1"
proof -
  from unknown have "find (\<lambda>x. username x = un1) (users d1) = None"
    by (simp add: find_None_iff_ball)
  then have a: "login cfg t1 d1 un1 pw1 = \<lparr>status = 400, body = Msg ''Invalid credentials''\<rparr>"
    by (simp add: login_def)
  from find_distinct_key [OF uniq known(1)] known(2)
  have "find (\<lambda>x. username x = un2) (users d2) = Some usr" by simp
  with mismatch
  have "login cfg t2 d2 un2 pw2 = \<lparr>status = 400, body = Msg ''Invalid credentials''\<rparr>"
    by (simp add: login_def)
  with a show ?thesis by simp
qed

theorem login_failures_indistinguishable_witness:
  "login sample_config 100 empty_db ''alice'' ''secret''
     = \<lparr>status = 400, body = Msg ''Invalid credentials''\<rparr>
   \<and> login sample_config 200 sample_db ''alice'' ''guess''
     = login sample_config 100 empty_db ''alice'' ''secret''"
  using login_failures_indistinguishable [where ?d1.0 = empty_db and ?un1.0 = "''alice''"
      and ?d2.0 = sample_db and usr = alice and ?un2.0 = "''alice''" and cfg = sample_config
      and ?pw2.0 = "''guess''" and ?t1.0 = 100 and ?t2.0 = 200 and ?pw1.0 = "''secret''"]
  by (simp add: empty_db_def sample_db_def alice_def carol_def sample_config_def)

lemma login_success_cases:
  assumes "login cfg t0 d un pw = \<lparr>status = 200, body = TokenBody tok\<rparr>"
  obtains usr where "usr \<in> set (users d)" "username usr = un"
    "tok = jwt_sign \<lparr>ru_id = u_id usr, ru_role = role usr\<rparr> (JWT_SECRET cfg) expiresIn_5h t0"
proof (cases "find (\<lambda>x. username x = un) (users d)")
  case None
  with assms show ?thesis by (simp add: login_def)
next
  case (Some usr)
  then have "usr \<in> set (users d)" "username usr = un"
    by (auto simp: find_Some_iff)
  moreover from Some assms
  have "tok = jwt_sign \<lparr>ru_id = u_id usr, ru_role = role usr\<rparr> (JWT_SECRET cfg) expiresIn_5h t0"
    by (simp add: login_def split: if_splits)
  ultimately show ?thesis by (rule that)
qed

text \<open>
  Claim C6. A token issued by a login at time \<open>t0\<close> verifies, yielding the id and role
  of the user who logged in, at every time before \<open>t0\<close> plus five hours; from then on it
  is answered 401. It is answered 401 as well by a process whose signing key is another
  one, and so are an absent header and a string that is no token. Every token that is
  signed with another key than the process's, or whose expiry has been reached, is
  answered 401, whatever identity and times it carries.
\<close>

theorem token_verification:
  assumes issued: "login cfg t0 d un pw = \<lparr>status = 200, body = TokenBody tok\<rparr>"
  shows "(now < t0 + 5 * 60 * 60 \<longrightarrow>
            (\<exists>usr\<in>set (users d). username usr = un
               \<and> auth cfg now (Some tok) = Inr \<lparr>ru_id = u_id usr, ru_role = role usr\<rparr>))
       \<and> (t0 + 5 * 60 * 60 \<le> now \<longrightarrow>
            auth cfg now (Some tok) = Inl \<lparr>status = 401, body = Msg ''Token is not valid''\<rparr>)
       \<and> (JWT_SECRET cfg' \<noteq> JWT_SECRET cfg \<longrightarrow>
            auth cfg' now (Some tok) = Inl \<lparr>status = 401, body = Msg ''Token is not valid''\<rparr>)
       \<and> auth cfg now None = Inl \<lparr>status = 401, body = Msg ''No token, authorization denied''\<rparr>
       \<and> (\<exists>r. auth cfg now (Some (Garbage s)) = Inl r \<and> status r = 401)
       \<and> (signed_with t \<noteq> JWT_SECRET cfg \<or> exp t \<le> now \<longrightarrow>
            auth cfg now (Some (Signed t))
              = Inl \<lparr>status = 401, body = Msg ''Token is not valid''\<rparr>)"
proof -
  from issued obtain usr where usr: "usr \<in> set (users d)" "username usr = un"
    and tok: "tok = jwt_sign \<lparr>ru_id = u_id usr, ru_role = role usr\<rparr> (JWT_SECRET cfg) expiresIn_5h t0"
    by (rule login_success_cases)
  have fresh: "now < t0 + 5 * 60 * 60 \<Longrightarrow>
      auth cfg now (Some tok) = Inr \<lparr>ru_id = u_id usr, ru_role = role usr\<rparr>"
    by (simp add: tok auth_def jwt_sign_def expiresIn_5h_def)
  have expired: "t0 + 5 * 60 * 60 \<le> now \<Longrightarrow>
      auth cfg now (Some tok) = Inl \<lparr>status = 401, body = Msg ''Token is not valid''\<rparr>"
    by (simp add: tok auth_def jwt_sign_def expiresIn_5h_def)
  have other_key: "JWT_SECRET cfg' \<noteq> JWT_SECRET cfg \<Longrightarrow>
      auth cfg' now (Some tok) = Inl \<lparr>status = 401, body = Msg ''Token is not valid''\<rparr>"
    by (auto simp: tok auth_def jwt_sign_def)
  have absent: "auth cfg now None = Inl \<lparr>status = 401, body = Msg ''No token, authorization denied''\<rparr>"
    by (simp add: auth_def)
  have malformed: "\<exists>r. auth cfg now (Some (Garbage s)) = Inl r \<and> status r = 401"
    by (simp add: auth_def)
  have forged: "signed_with t \<noteq> JWT_SECRET cfg \<or> exp t \<le> now \<Longrightarrow>
      auth cfg now (Some (Signed t))
        = Inl \<lparr>status = 401, body = Msg ''Token is not valid''\<rparr>"
    by (auto simp: auth_def)
  from usr fresh expired other_key absent malformed forged show ?thesis by blast
qed

theorem token_verification_witness:
  "login sample_config 100 sample_db ''alice'' ''secret''
     = \<lparr>status = 200, body = TokenBody (Signed \<lparr>jwt_user = candidate1, iat = 100, exp = 18100,
                                                signed_with = ''k1''\<rparr>)\<rparr>
   \<and> auth sample_config 18099
        (Some (Signed \<lparr>jwt_user = candidate1, iat = 100, exp = 18100, signed_with = ''k1''\<rparr>))
     = Inr candidate1
   \<and> auth sample_config 18100
        (Some (Signed \<lparr>jwt_user = candidate1, iat = 100, exp = 18100, signed_with = ''k1''\<rparr>))
     = Inl \<lparr>status = 401, body = Msg ''Token is not valid''\<rparr>
   \<and> auth (sample_config\<lparr>JWT_SECRET := ''k2''\<rparr>) 200
        (Some (Signed \<lparr>jwt_user = candidate1, iat = 100, exp = 18100, signed_with = ''k1''\<rparr>))
     = Inl \<lparr>status = 401, body = Msg ''Token is not valid''\<rparr>
   \<and> auth sample_config 200
        (Some (Signed \<lparr>jwt_user = \<lparr>ru_id = 2, ru_role = Some ''Admin''\<rparr>, iat = 100,
                       exp = 99999, signed_with = ''k2''\<rparr>))
     = Inl \<lparr>status = 401, body = Msg ''Token is not valid''\<rparr>"
  using token_verification [where cfg = sample_config and ?t0.0 = 100 and d = sample_db
      and un = "''alice''" and pw = "''secret''" and now = 18099
      and tok = "Signed \<lparr>jwt_user = candidate1, iat = 100, exp = 18100, signed_with = ''k1''\<rparr>"
      and cfg' = "sample_config\<lparr>JWT_SECRET := ''k2''\<rparr>"
      and t = "\<lparr>jwt_user = \<lparr>ru_id = 2, ru_role = Some ''Admin''\<rparr>, iat = 100, exp = 99999,
                signed_with = ''k2''\<rparr>"]
    token_verification [where cfg = sample_config and ?t0.0 = 100 and d = sample_db
      and un = "''alice''" and pw = "''secret''" and now = 18100
      and tok = "Signed \<lparr>jwt_user = candidate1, iat = 100, exp = 18100, signed_with = ''k1''\<rparr>"
      and cfg' = "sample_config\<lparr>JWT_SECRET := ''k2''\<rparr>"
      and t = "\<lparr>jwt_user = \<lparr>ru_id = 2, ru_role = Some ''Admin''\<rparr>, iat = 100, exp = 99999,
                signed_with = ''k2''\<rparr>"]
    token_verification [where cfg = sample_config and ?t0.0 = 100 and d = sample_db
      and un = "''alice''" and pw = "''secret''" and now = 200
      and tok = "Signed \<lparr>jwt_user = candidate1, iat = 100, exp = 18100, signed_with = ''k1''\<rparr>"
      and cfg' = "sample_config\<lparr>JWT_SECRET := ''k2''\<rparr>"
      and t = "\<lparr>jwt_user = \<lparr>ru_id = 2, ru_role = Some ''Admin''\<rparr>, iat = 100, exp = 99999,
                signed_with = ''k2''\<rparr>"]
  by (simp add: login_def jwt_sign_def expiresIn_5h_def sample_config_def sample_db_def
      alice_def carol_def candidate1_def)

subsection \<open>Registering\<close>

lemma register_existing:
  assumes "usr \<in> set (users d)" "username usr = rb_username b"
  shows "register cfg d b = (d, \<lparr>status = 400, body = Msg ''User already exists''\<rparr>)"
proof -
  from assms have "find (\<lambda>x. username x = rb_username b) (users d) \<noteq> None"
    by (auto simp: find_None_iff_ball)
  then show ?thesis by (auto simp: register_def)
qed

lemma register_users:
  "users (fst (register cfg d b)) = users d
   \<or> ((\<forall>x\<in>set (users d). username x \<noteq> rb_username b)
       \<and> (\<exists>x. username x = rb_username b \<and> users (fst (register cfg d b)) = users d @ [x])
       \<and> status (snd (register cfg d b)) = 201)"
proof (cases "find (\<lambda>x. username x = rb_username b) (users d)")
  case (Some a)
  then show ?thesis by (simp add: register_def)
next
  case None
  then have fresh: "\<forall>x\<in>set (users d). username x \<noteq> rb_username b"
    by (simp add: find_None_iff_ball)
  show ?thesis
    using None fresh
    by (auto simp: register_def Let_def new_User_def save_new_user_def split: sum.splits if_splits)
qed

lemma register_created:
  assumes "register cfg d b = (d', r)" "status r = 201"
  shows "\<exists>x\<in>set (users d'). username x = rb_username b"
  using assms
  by (auto simp: register_def Let_def new_User_def save_new_user_def
      split: option.splits sum.splits if_splits)

text \<open>
  Claim C7. A registration with the username of an existing user is answered 400
  \<^verbatim>\<open>User already exists\<close> and leaves the database as it was, whatever role and profile
  data it carries; so is a second registration of a username after a successful first
  one. Every registration keeps the usernames of the collection distinct.
\<close>

theorem register_duplicate_username:
  "(usr \<in> set (users d) \<and> username usr = rb_username b \<longrightarrow>
      register cfg d b = (d, \<lparr>status = 400, body = Msg ''User already exists''\<rparr>))
   \<and> (register cfg d b = (d', r) \<and> status r = 201 \<and> rb_username b2 = rb_username b \<longrightarrow>
      register cfg d' b2 = (d', \<lparr>status = 400, body = Msg ''User already exists''\<rparr>))
   \<and> (distinct (map username (users d)) \<longrightarrow>
      distinct (map username (users (fst (register cfg d b)))))"
proof (intro conjI impI)
  assume "usr \<in> set (users d) \<and> username usr = rb_username b"
  then show "register cfg d b = (d, \<lparr>status = 400, body = Msg ''User already exists''\<rparr>)"
    by (blast intro: register_existing)
next
  assume a: "register cfg d b = (d', r) \<and> status r = 201 \<and> rb_username b2 = rb_username b"
  then obtain x where "x \<in> set (users d')" "username x = rb_username b2"
    using register_created [of cfg d b d' r] by auto
  then show "register cfg d' b2 = (d', \<lparr>status = 400, body = Msg ''User already exists''\<rparr>)"
    by (rule register_existing)
next
  assume dist: "distinct (map username (users d))"
  from register_users [of cfg d b]
  show "distinct (map username (users (fst (register cfg d b))))"
  proof
    assume "users (fst (register cfg d b)) = users d"
    with dist show ?thesis by simp
  next
    assume "(\<forall>x\<in>set (users d). username x \<noteq> rb_username b)
       \<and> (\<exists>x. username x = rb_username b \<and> users (fst (register cfg d b)) = users d @ [x])
       \<and> status (snd (register cfg d b)) = 201"
    then obtain x where fresh: "\<forall>y\<in>set (users d). username y \<noteq> rb_username b"
      and x: "username x = rb_username b" "users (fst (register cfg d b)) = users d @ [x]"
      by blast
    from fresh x(1) have "username x \<notin> username ` set (users d)" by force
    with dist x(2) show ?thesis by simp
  qed
qed

theorem register_duplicate_username_witness:
  "register sample_config sample_db
       \<lparr>rb_username = ''alice'', rb_password = ''pw'', rb_role = Some ''Recruiter'',
        rb_profileData = \<lparr>pd_user = None, pd_fields = Map.empty\<rparr>\<rparr>
     = (sample_db, \<lparr>status = 400, body = Msg ''User already exists''\<rparr>)
   \<and> register sample_config empty_db
       \<lparr>rb_username = ''bob'', rb_password = ''pw'', rb_role = Some ''Candidate'',
        rb_profileData = \<lparr>pd_user = None, pd_fields = Map.empty\<rparr>\<rparr>
     = (empty_db\<lparr>users := [\<lparr>u_id = 0, username = ''bob'', password = ''wp'',
                               role = Some ''Candidate'', recruiterProfile = None\<rparr>],
                 next_oid := 1\<rparr>,
        \<lparr>status = 201, body = Message ''User registered successfully''\<rparr>)
   \<and> register sample_config
       (empty_db\<lparr>users := [\<lparr>u_id = 0, username = ''bob'', password = ''wp'',
                              role = Some ''Candidate'', recruiterProfile = None\<rparr>],
                 next_oid := 1\<rparr>)
       \<lparr>rb_username = ''bob'', rb_password = ''other'', rb_role = Some ''Admin'',
        rb_profileData = \<lparr>pd_user = None, pd_fields = Map.empty\<rparr>\<rparr>
     = (empty_db\<lparr>users := [\<lparr>u_id = 0, username = ''bob'', password = ''wp'',
                               role = Some ''Candidate'', recruiterProfile = None\<rparr>],
                 next_oid := 1\<rparr>,
        \<lparr>status = 400, body = Msg ''User already exists''\<rparr>)
   \<and> distinct (map username (users (fst (register sample_config sample_db
       \<lparr>rb_username = ''bob'', rb_password = ''pw'', rb_role = Some ''Candidate'',
        rb_profileData = \<lparr>pd_user = None, pd_fields = Map.empty\<rparr>\<rparr>))))"
  using register_duplicate_username [where usr = alice and d = sample_db and cfg = sample_config
      and b = "\<lparr>rb_username = ''alice'', rb_password = ''pw'', rb_role = Some ''Recruiter'',
        rb_profileData = \<lparr>pd_user = None, pd_fields = Map.empty\<rparr>\<rparr>"]
    register_duplicate_username [where d = empty_db and cfg = sample_config
      and b = "\<lparr>rb_username = ''bob'', rb_password = ''pw'', rb_role = Some ''Candidate'',
        rb_profileData = \<lparr>pd_user = None, pd_fields = Map.empty\<rparr>\<rparr>"
      and d' = "empty_db\<lparr>users := [\<lparr>u_id = 0, username = ''bob'', password = ''wp'',
                               role = Some ''Candidate'', recruiterProfile = None\<rparr>],
                 next_oid := 1\<rparr>"
      and r = "\<lparr>status = 201, body = Message ''User registered successfully''\<rparr>"
      and ?b2.0 = "\<lparr>rb_username = ''bob'', rb_password = ''other'', rb_role = Some ''Admin'',
        rb_profileData = \<lparr>pd_user = None, pd_fields = Map.empty\<rparr>\<rparr>"]
    register_duplicate_username [where d = sample_db and cfg = sample_config
      and b = "\<lparr>rb_username = ''bob'', rb_password = ''pw'', rb_role = Some ''Candidate'',
        rb_profileData = \<lparr>pd_user = None, pd_fields = Map.empty\<rparr>\<rparr>"]
  by (simp add: register_def new_User_def save_new_user_def Let_def sample_config_def
      sample_db_def empty_db_def alice_def carol_def roles_def)

subsection \<open>Saving a resume\<close>


lemma set_paths_owner: "r_user (set_paths now (b\<lparr>res_user := Some uid\<rparr>) r) = uid"
  by (simp add: set_paths_def)

lemma castUpdate_throws:
  "res_summary b = Some Uncastable \<or> res_template b = Some Uncastable \<Longrightarrow>
     castUpdate (b\<lparr>res_user := x\<rparr>) = Inl CastError"
  by (simp add: castUpdate_def)

lemma castUpdate_casts:
  "res_summary b \<noteq> Some Uncastable \<Longrightarrow> res_template b \<noteq> Some Uncastable \<Longrightarrow>
     castUpdate (b\<lparr>res_user := x\<rparr>) = Inr (b\<lparr>res_user := x\<rparr>)"
  by (simp add: castUpdate_def)

lemma castUpdate_cases:
  "castUpdate upd = Inl CastError \<or> castUpdate upd = Inr upd"
  by (simp add: castUpdate_def)

lemma saveResume_fails:
  assumes "res_summary b = Some Uncastable \<or> res_template b = Some Uncastable"
  shows "saveResume now d u b
           = (d, \<lparr>status = 500, body = Message ''Failed to save resume.''\<rparr>)"
  using castUpdate_throws [OF assms, of "Some (ru_id u)"]
  by (simp add: saveResume_def findOneAndUpdate_def)












subsection \<open>Ownership of what is written\<close>

lemma saveResume_ignores_owner:
  "saveResume now d u (b\<lparr>res_user := x\<rparr>) = saveResume now d u b"
  by (simp add: saveResume_def)

lemma createJob_ignores_owner: "createJob d u (c\<lparr>jb_recruiter := y\<rparr>) = createJob d u c"
  by (simp add: createJob_def)

lemma saveResume_others:
  "filter (\<lambda>r. r_user r \<noteq> ru_id u) (resumes (fst (saveResume now d u b)))
     = filter (\<lambda>r. r_user r \<noteq> ru_id u) (resumes d)"
proof (cases "res_summary b = Some Uncastable \<or> res_template b = Some Uncastable")
  case True
  then show ?thesis by (simp add: saveResume_fails)
next
  case False
  then have cast: "castUpdate (b\<lparr>res_user := Some (ru_id u)\<rparr>)
      = Inr (b\<lparr>res_user := Some (ru_id u)\<rparr>)"
    by (simp add: castUpdate_casts)
  show ?thesis
  proof (cases "find (\<lambda>r. r_user r = ru_id u) (resumes d)")
    case None
    with cast show ?thesis
      by (simp add: saveResume_def findOneAndUpdate_def set_paths_owner Let_def)
  next
    case (Some old)
    have "filter (\<lambda>r. \<not> r_user r = ru_id u)
            (updateOne (\<lambda>r. r_user r = ru_id u)
               (set_paths now (b\<lparr>res_user := Some (ru_id u)\<rparr>)) (resumes d))
        = filter (\<lambda>r. \<not> r_user r = ru_id u) (resumes d)"
      by (rule filter_updateOne) (simp add: set_paths_owner)
    with cast Some show ?thesis
      by (simp add: saveResume_def findOneAndUpdate_def Let_def)
  qed
qed

lemma saveResume_response:
  "\<forall>m r. body (snd (saveResume now d u b)) = ResumeBody m r \<longrightarrow>
     r_user r = ru_id u \<and> r \<in> set (resumes (fst (saveResume now d u b)))"
proof (cases "res_summary b = Some Uncastable \<or> res_template b = Some Uncastable")
  case True
  then show ?thesis by (simp add: saveResume_fails)
next
  case False
  then have cast: "castUpdate (b\<lparr>res_user := Some (ru_id u)\<rparr>)
      = Inr (b\<lparr>res_user := Some (ru_id u)\<rparr>)"
    by (simp add: castUpdate_casts)
  show ?thesis
  proof (cases "find (\<lambda>r. r_user r = ru_id u) (resumes d)")
    case None
    with cast show ?thesis
      by (simp add: saveResume_def findOneAndUpdate_def set_paths_owner Let_def)
  next
    case (Some old)
    from updateOne_found [OF Some]
    have "set_paths now (b\<lparr>res_user := Some (ru_id u)\<rparr>) old
        \<in> set (updateOne (\<lambda>r. r_user r = ru_id u)
                  (set_paths now (b\<lparr>res_user := Some (ru_id u)\<rparr>)) (resumes d))" .
    with cast Some show ?thesis
      by (simp add: saveResume_def findOneAndUpdate_def Let_def set_paths_owner)
  qed
qed

lemma validate_Job_recruiter:
  "validate_Job i c = Inr j \<Longrightarrow> jb_recruiter c = Some (recruiter j)"
  by (auto simp: validate_Job_def split: option.splits if_splits)

lemma createJob_jobs:
  "(jobs (fst (createJob d u c)) = jobs d \<and> status (snd (createJob d u c)) = 500
      \<and> body (snd (createJob d u c)) = Text ''Server Error'')
   \<or> (\<exists>j. jobs (fst (createJob d u c)) = jobs d @ [j] \<and> recruiter j = ru_id u
          \<and> snd (createJob d u c) = \<lparr>status = 201, body = JobBody j\<rparr>)"
proof (cases "validate_Job (next_oid d) (c\<lparr>jb_recruiter := Some (ru_id u)\<rparr>)")
  case (Inl err)
  then show ?thesis
    by (simp add: createJob_def Let_def Server_Error_def)
next
  case (Inr j)
  from validate_Job_recruiter [OF Inr] have "recruiter j = ru_id u" by simp
  with Inr show ?thesis
    by (simp add: createJob_def Let_def)
qed

lemma route_authenticated:
  "auth cfg now hdr = Inr u \<Longrightarrow>
     route cfg now hdr guard d handler
       = (case guard u of Some denied \<Rightarrow> (d, denied) | None \<Rightarrow> handler u)"
  by (simp add: route_def)

lemma route_unauthenticated:
  "\<forall>u. auth cfg now hdr \<noteq> Inr u \<Longrightarrow> fst (route cfg now hdr guard d handler) = d"
  by (cases "auth cfg now hdr") (simp_all add: route_def)

lemma isCandidate_denied: "isCandidate u = Some r \<Longrightarrow> \<exists>m. body r = Msg m"
  by (auto simp: isCandidate_def split: if_splits)

lemma isRecruiter_denied: "isRecruiter u = Some r \<Longrightarrow> \<exists>m. body r = Msg m"
  by (auto simp: isRecruiter_def split: if_splits)

lemma post_api_resume_owner:
  assumes "auth cfg now hdr = Inr u"
  shows "filter (\<lambda>r. r_user r \<noteq> ru_id u) (resumes (fst (post_api_resume cfg now hdr d b)))
           = filter (\<lambda>r. r_user r \<noteq> ru_id u) (resumes d)
       \<and> (\<forall>m r. body (snd (post_api_resume cfg now hdr d b)) = ResumeBody m r
              \<longrightarrow> r_user r = ru_id u
                  \<and> r \<in> set (resumes (fst (post_api_resume cfg now hdr d b))))"
proof (cases "isCandidate u")
  case None
  with assms have eq: "post_api_resume cfg now hdr d b = saveResume now d u b"
    by (simp add: post_api_resume_def route_authenticated)
  from saveResume_others [of u now d b] saveResume_response [of now d u b] show ?thesis
    unfolding eq by blast
next
  case (Some denied)
  with assms have eq: "post_api_resume cfg now hdr d b = (d, denied)"
    by (simp add: post_api_resume_def route_authenticated)
  from isCandidate_denied [OF Some] show ?thesis
    unfolding eq by auto
qed

lemma post_jobs_owner:
  assumes "auth cfg now hdr = Inr u"
  shows "filter (\<lambda>j. recruiter j \<noteq> ru_id u) (jobs (fst (post_jobs cfg now hdr d c)))
           = filter (\<lambda>j. recruiter j \<noteq> ru_id u) (jobs d)
       \<and> (\<forall>j. body (snd (post_jobs cfg now hdr d c)) = JobBody j \<longrightarrow>
              recruiter j = ru_id u \<and> jobs (fst (post_jobs cfg now hdr d c)) = jobs d @ [j])"
proof (cases "isRecruiter u")
  case None
  with assms have eq: "post_jobs cfg now hdr d c = createJob d u c"
    by (simp add: post_jobs_def route_authenticated)
  from createJob_jobs [of d u c] show ?thesis
    unfolding eq
  proof
    assume "jobs (fst (createJob d u c)) = jobs d \<and> status (snd (createJob d u c)) = 500
      \<and> body (snd (createJob d u c)) = Text ''Server Error''"
    then show "filter (\<lambda>j. recruiter j \<noteq> ru_id u) (jobs (fst (createJob d u c)))
           = filter (\<lambda>j. recruiter j \<noteq> ru_id u) (jobs d)
       \<and> (\<forall>j. body (snd (createJob d u c)) = JobBody j \<longrightarrow>
              recruiter j = ru_id u \<and> jobs (fst (createJob d u c)) = jobs d @ [j])"
      by simp
  next
    assume "\<exists>j. jobs (fst (createJob d u c)) = jobs d @ [j] \<and> recruiter j = ru_id u
          \<and> snd (createJob d u c) = \<lparr>status = 201, body = JobBody j\<rparr>"
    then obtain j0 where "jobs (fst (createJob d u c)) = jobs d @ [j0]" "recruiter j0 = ru_id u"
      "snd (createJob d u c) = \<lparr>status = 201, body = JobBody j0\<rparr>"
      by blast
    then show "filter (\<lambda>j. recruiter j \<noteq> ru_id u) (jobs (fst (createJob d u c)))
           = filter (\<lambda>j. recruiter j \<noteq> ru_id u) (jobs d)
       \<and> (\<forall>j. body (snd (createJob d u c)) = JobBody j \<longrightarrow>
              recruiter j = ru_id u \<and> jobs (fst (createJob d u c)) = jobs d @ [j])"
      by simp
  qed
next
  case (Some denied)
  with assms have eq: "post_jobs cfg now hdr d c = (d, denied)"
    by (simp add: post_jobs_def route_authenticated)
  from isRecruiter_denied [OF Some] show ?thesis
    unfolding eq by auto
qed

lemma post_api_resume_written:
  assumes "auth cfg now hdr = Inr u" "ru_role u = Some ''Candidate''"
    and "res_summary b \<noteq> Some Uncastable" "res_template b \<noteq> Some Uncastable"
  shows "\<exists>r. r \<in> set (resumes (fst (post_api_resume cfg now hdr d b)))
             \<and> r_user r = ru_id u
             \<and> snd (post_api_resume cfg now hdr d b)
                 = \<lparr>status = 201, body = ResumeBody ''Resume saved successfully!'' r\<rparr>"
proof -
  from assms(1,2) have eq: "post_api_resume cfg now hdr d b = saveResume now d u b"
    by (simp add: post_api_resume_def route_authenticated isCandidate_def)
  have cast: "castUpdate (b\<lparr>res_user := Some (ru_id u)\<rparr>)
      = Inr (b\<lparr>res_user := Some (ru_id u)\<rparr>)"
    using assms(3,4) by (rule castUpdate_casts)
  have "\<exists>r. snd (saveResume now d u b)
               = \<lparr>status = 201, body = ResumeBody ''Resume saved successfully!'' r\<rparr>"
    using cast
    by (cases "find (\<lambda>r. r_user r = ru_id u) (resumes d)")
      (simp_all add: saveResume_def findOneAndUpdate_def Let_def)
  then obtain r where r: "snd (saveResume now d u b)
               = \<lparr>status = 201, body = ResumeBody ''Resume saved successfully!'' r\<rparr>"
    by blast
  then have "body (snd (saveResume now d u b)) = ResumeBody ''Resume saved successfully!'' r"
    by simp
  with saveResume_response [of now d u b]
  have "r_user r = ru_id u \<and> r \<in> set (resumes (fst (saveResume now d u b)))"
    by blast
  with r show ?thesis unfolding eq by blast
qed

lemma validate_Job_valid:
  assumes "jb_recruiter c = Some rid" "jb_jobTitle c = Some ti" "ti \<noteq> []"
    and "jb_location c = Some lo" "lo \<noteq> []" "jb_employmentType c = Some et"
    and "et \<in> {''Full-time'', ''Part-time'', ''Contract'', ''Internship''}"
    and "jb_jobSummary c = Some su" "su \<noteq> []" "jb_companyName c = Some co" "co \<noteq> []"
  shows "\<exists>j. validate_Job i c = Inr j \<and> recruiter j = rid"
  using assms by (auto simp add: validate_Job_def required_def employmentType_enum_def)

lemma post_jobs_created:
  assumes "auth cfg now hdr = Inr u" "ru_role u = Some ''Recruiter''"
    and "jb_jobTitle c = Some ti" "ti \<noteq> []" "jb_location c = Some lo" "lo \<noteq> []"
    and "jb_employmentType c = Some et"
    and "et \<in> {''Full-time'', ''Part-time'', ''Contract'', ''Internship''}"
    and "jb_jobSummary c = Some su" "su \<noteq> []" "jb_companyName c = Some co" "co \<noteq> []"
  shows "\<exists>j. jobs (fst (post_jobs cfg now hdr d c)) = jobs d @ [j]
             \<and> recruiter j = ru_id u
             \<and> snd (post_jobs cfg now hdr d c) = \<lparr>status = 201, body = JobBody j\<rparr>"
proof -
  from assms(1,2) have eq: "post_jobs cfg now hdr d c = createJob d u c"
    by (simp add: post_jobs_def route_authenticated isRecruiter_def)
  from assms(3-12)
  obtain j where j: "validate_Job (next_oid d) (c\<lparr>jb_recruiter := Some (ru_id u)\<rparr>) = Inr j"
    and own: "recruiter j = ru_id u"
    using validate_Job_valid [of "c\<lparr>jb_recruiter := Some (ru_id u)\<rparr>" "ru_id u" ti lo et su co
        "next_oid d"]
    by auto
  from j have "createJob d u c
      = (d\<lparr>next_oid := Suc (next_oid d), jobs := jobs d @ [j]\<rparr>,
         \<lparr>status = 201, body = JobBody j\<rparr>)"
    by (simp add: createJob_def Let_def)
  with own show ?thesis unfolding eq by simp
qed

text \<open>
  Claim C10. On \<^verbatim>\<open>POST /api/resume\<close> and \<^verbatim>\<open>POST /jobs\<close> a \<^verbatim>\<open>user\<close> or
  \<^verbatim>\<open>recruiter\<close> entry of the body changes nothing. A request whose token does not
  verify leaves the database as it was. For a request whose token verifies as \<open>u\<close>, the
  resumes and jobs owned by others are afterwards exactly what they were, and a resume or
  job in the response is the one written and is owned by \<open>u\<close>. A candidate's body that
  can be cast does write such a resume, and a recruiter's body with the required entries
  does create such a job.
\<close>

theorem owner_is_authenticated_caller:
  "post_api_resume cfg now hdr d (b\<lparr>res_user := x\<rparr>) = post_api_resume cfg now hdr d b
   \<and> post_jobs cfg now hdr d (c\<lparr>jb_recruiter := y\<rparr>) = post_jobs cfg now hdr d c
   \<and> ((\<forall>u. auth cfg now hdr \<noteq> Inr u) \<longrightarrow>
        fst (post_api_resume cfg now hdr d b) = d \<and> fst (post_jobs cfg now hdr d c) = d)
   \<and> (auth cfg now hdr = Inr u \<longrightarrow>
        filter (\<lambda>r. r_user r \<noteq> ru_id u) (resumes (fst (post_api_resume cfg now hdr d b)))
          = filter (\<lambda>r. r_user r \<noteq> ru_id u) (resumes d)
        \<and> (\<forall>m r. body (snd (post_api_resume cfg now hdr d b)) = ResumeBody m r
               \<longrightarrow> r_user r = ru_id u
                   \<and> r \<in> set (resumes (fst (post_api_resume cfg now hdr d b))))
        \<and> filter (\<lambda>j. recruiter j \<noteq> ru_id u) (jobs (fst (post_jobs cfg now hdr d c)))
          = filter (\<lambda>j. recruiter j \<noteq> ru_id u) (jobs d)
        \<and> (\<forall>j. body (snd (post_jobs cfg now hdr d c)) = JobBody j
               \<longrightarrow> recruiter j = ru_id u
                   \<and> jobs (fst (post_jobs cfg now hdr d c)) = jobs d @ [j]))
   \<and> (auth cfg now hdr = Inr u \<and> ru_role u = Some ''Candidate''
       \<and> res_summary b \<noteq> Some Uncastable \<and> res_template b \<noteq> Some Uncastable \<longrightarrow>
        (\<exists>r. r \<in> set (resumes (fst (post_api_resume cfg now hdr d b)))
             \<and> r_user r = ru_id u
             \<and> snd (post_api_resume cfg now hdr d b)
                 = \<lparr>status = 201, body = ResumeBody ''Resume saved successfully!'' r\<rparr>))
   \<and> (auth cfg now hdr = Inr u \<and> ru_role u = Some ''Recruiter''
       \<and> jb_jobTitle c = Some ti \<and> ti \<noteq> [] \<and> jb_location c = Some lo \<and> lo \<noteq> []
       \<and> jb_employmentType c = Some et
       \<and> et \<in> {''Full-time'', ''Part-time'', ''Contract'', ''Internship''}
       \<and> jb_jobSummary c = Some su \<and> su \<noteq> []
       \<and> jb_companyName c = Some co \<and> co \<noteq> [] \<longrightarrow>
        (\<exists>j. jobs (fst (post_jobs cfg now hdr d c)) = jobs d @ [j]
             \<and> recruiter j = ru_id u
             \<and> snd (post_jobs cfg now hdr d c) = \<lparr>status = 201, body = JobBody j\<rparr>))"
proof -
  have 1: "post_api_resume cfg now hdr d (b\<lparr>res_user := x\<rparr>) = post_api_resume cfg now hdr d b"
    by (simp add: post_api_resume_def saveResume_ignores_owner)
  have 2: "post_jobs cfg now hdr d (c\<lparr>jb_recruiter := y\<rparr>) = post_jobs cfg now hdr d c"
    by (simp add: post_jobs_def createJob_ignores_owner)
  have 3: "(\<forall>u. auth cfg now hdr \<noteq> Inr u) \<longrightarrow>
        fst (post_api_resume cfg now hdr d b) = d \<and> fst (post_jobs cfg now hdr d c) = d"
    by (simp add: post_api_resume_def post_jobs_def route_unauthenticated)
  have 4: "auth cfg now hdr = Inr u \<and> ru_role u = Some ''Candidate''
       \<and> res_summary b \<noteq> Some Uncastable \<and> res_template b \<noteq> Some Uncastable \<longrightarrow>
        (\<exists>r. r \<in> set (resumes (fst (post_api_resume cfg now hdr d b)))
             \<and> r_user r = ru_id u
             \<and> snd (post_api_resume cfg now hdr d b)
                 = \<lparr>status = 201, body = ResumeBody ''Resume saved successfully!'' r\<rparr>)"
    using post_api_resume_written [of cfg now hdr u b d] by blast
  have 5: "auth cfg now hdr = Inr u \<and> ru_role u = Some ''Recruiter''
       \<and> jb_jobTitle c = Some ti \<and> ti \<noteq> [] \<and> jb_location c = Some lo \<and> lo \<noteq> []
       \<and> jb_employmentType c = Some et
       \<and> et \<in> {''Full-time'', ''Part-time'', ''Contract'', ''Internship''}
       \<and> jb_jobSummary c = Some su \<and> su \<noteq> []
       \<and> jb_companyName c = Some co \<and> co \<noteq> [] \<longrightarrow>
        (\<exists>j. jobs (fst (post_jobs cfg now hdr d c)) = jobs d @ [j]
             \<and> recruiter j = ru_id u
             \<and> snd (post_jobs cfg now hdr d c) = \<lparr>status = 201, body = JobBody j\<rparr>)"
    using post_jobs_created [of cfg now hdr u c ti lo et su co d] by blast
  from 1 2 3 post_api_resume_owner [of cfg now hdr u d b] post_jobs_owner [of cfg now hdr u d c]
  have "post_api_resume cfg now hdr d (b\<lparr>res_user := x\<rparr>) = post_api_resume cfg now hdr d b
   \<and> post_jobs cfg now hdr d (c\<lparr>jb_recruiter := y\<rparr>) = post_jobs cfg now hdr d c
   \<and> ((\<forall>u. auth cfg now hdr \<noteq> Inr u) \<longrightarrow>
        fst (post_api_resume cfg now hdr d b) = d \<and> fst (post_jobs cfg now hdr d c) = d)
   \<and> (auth cfg now hdr = Inr u \<longrightarrow>
        filter (\<lambda>r. r_user r \<noteq> ru_id u) (resumes (fst (post_api_resume cfg now hdr d b)))
          = filter (\<lambda>r. r_user r \<noteq> ru_id u) (resumes d)
        \<and> (\<forall>m r. body (snd (post_api_resume cfg now hdr d b)) = ResumeBody m r
               \<longrightarrow> r_user r = ru_id u
                   \<and> r \<in> set (resumes (fst (post_api_resume cfg now hdr d b))))
        \<and> filter (\<lambda>j. recruiter j \<noteq> ru_id u) (jobs (fst (post_jobs cfg now hdr d c)))
          = filter (\<lambda>j. recruiter j \<noteq> ru_id u) (jobs d)
        \<and> (\<forall>j. body (snd (post_jobs cfg now hdr d c)) = JobBody j
               \<longrightarrow> recruiter j = ru_id u
                   \<and> jobs (fst (post_jobs cfg now hdr d c)) = jobs d @ [j]))"
    by blast
  with 4 5 show ?thesis by (intro conjI) (elim conjE, assumption)+
qed

theorem owner_is_authenticated_caller_witness:
  "auth sample_config 200 (Some candidate1_token) = Inr candidate1
   \<and> filter (\<lambda>r. r_user r \<noteq> ru_id candidate1)
        (resumes (fst (post_api_resume sample_config 200 (Some candidate1_token)
                         sample_db (resume_v2\<lparr>res_user := Some 2\<rparr>))))
     = filter (\<lambda>r. r_user r \<noteq> ru_id candidate1) (resumes sample_db)
   \<and> map r_user (resumes (fst (post_api_resume sample_config 200 (Some candidate1_token)
                                  sample_db (resume_v2\<lparr>res_user := Some 2\<rparr>)))) = [1]
   \<and> auth sample_config 200 (Some recruiter3_token) = Inr recruiter3
   \<and> filter (\<lambda>j. recruiter j \<noteq> ru_id recruiter3)
        (jobs (fst (post_jobs sample_config 200 (Some recruiter3_token)
                      sample_db (sample_job_body\<lparr>jb_recruiter := Some 1\<rparr>))))
     = filter (\<lambda>j. recruiter j \<noteq> ru_id recruiter3) (jobs sample_db)
   \<and> map recruiter (jobs (fst (post_jobs sample_config 200 (Some recruiter3_token)
                                 sample_db (sample_job_body\<lparr>jb_recruiter := Some 1\<rparr>))))
     = [3, 3]
   \<and> fst (post_api_resume sample_config 200 None sample_db
             (resume_v2\<lparr>res_user := Some 2\<rparr>)) = sample_db
   \<and> status (snd (post_api_resume sample_config 200 (Some candidate1_token) sample_db
                     (resume_v2\<lparr>res_user := Some 2\<rparr>))) = 201
   \<and> status (snd (post_jobs sample_config 200 (Some recruiter3_token) sample_db
                     (sample_job_body\<lparr>jb_recruiter := Some 1\<rparr>))) = 201"
proof -
  have a: "auth sample_config 200 (Some candidate1_token) = Inr candidate1"
    by (simp add: auth_def sample_config_def candidate1_token_def)
  have b: "auth sample_config 200 (Some recruiter3_token) = Inr recruiter3"
    by (simp add: auth_def sample_config_def recruiter3_token_def)
  have c: "\<forall>u. auth sample_config 200 None \<noteq> Inr u"
    by (simp add: auth_def)
  from a owner_is_authenticated_caller [where cfg = sample_config and now = 200
      and hdr = "Some candidate1_token" and u = candidate1 and d = sample_db
      and b = "resume_v2\<lparr>res_user := Some 2\<rparr>"]
  have a1: "filter (\<lambda>r. r_user r \<noteq> ru_id candidate1)
        (resumes (fst (post_api_resume sample_config 200 (Some candidate1_token)
                         sample_db (resume_v2\<lparr>res_user := Some 2\<rparr>))))
     = filter (\<lambda>r. r_user r \<noteq> ru_id candidate1) (resumes sample_db)"
    by blast
  from b owner_is_authenticated_caller [where cfg = sample_config and now = 200
      and hdr = "Some recruiter3_token" and u = recruiter3 and d = sample_db
      and c = "sample_job_body\<lparr>jb_recruiter := Some 1\<rparr>"]
  have b1: "filter (\<lambda>j. recruiter j \<noteq> ru_id recruiter3)
        (jobs (fst (post_jobs sample_config 200 (Some recruiter3_token)
                      sample_db (sample_job_body\<lparr>jb_recruiter := Some 1\<rparr>))))
     = filter (\<lambda>j. recruiter j \<noteq> ru_id recruiter3) (jobs sample_db)"
    by blast
  from c owner_is_authenticated_caller [where cfg = sample_config and now = 200
      and hdr = None and d = sample_db and b = "resume_v2\<lparr>res_user := Some 2\<rparr>"]
  have c1: "fst (post_api_resume sample_config 200 None sample_db
                   (resume_v2\<lparr>res_user := Some 2\<rparr>)) = sample_db"
    by blast
  have a2: "map r_user (resumes (fst (post_api_resume sample_config 200 (Some candidate1_token)
                                  sample_db (resume_v2\<lparr>res_user := Some 2\<rparr>)))) = [1]"
    by (simp add: post_api_resume_def route_def a isCandidate_def saveResume_def
        findOneAndUpdate_def castUpdate_def cast_value_def set_paths_def Let_def
        candidate1_def sample_db_def alice_resume_def resume_v2_def no_paths_def)
  have b2: "map recruiter (jobs (fst (post_jobs sample_config 200 (Some recruiter3_token)
                                 sample_db (sample_job_body\<lparr>jb_recruiter := Some 1\<rparr>))))
     = [3, 3]"
    by (simp add: post_jobs_def route_def b isRecruiter_def createJob_def validate_Job_def
        required_def employmentType_enum_def Let_def recruiter3_def sample_db_def
        sample_job_def sample_job_body_def)
  have "ru_role candidate1 = Some ''Candidate''
      \<and> res_summary (resume_v2\<lparr>res_user := Some 2\<rparr>) \<noteq> Some Uncastable
      \<and> res_template (resume_v2\<lparr>res_user := Some 2\<rparr>) \<noteq> Some Uncastable"
    by (simp add: candidate1_def resume_v2_def no_paths_def)
  with a owner_is_authenticated_caller [where cfg = sample_config and now = 200
      and hdr = "Some candidate1_token" and u = candidate1 and d = sample_db
      and b = "resume_v2\<lparr>res_user := Some 2\<rparr>"]
  obtain r where "snd (post_api_resume sample_config 200 (Some candidate1_token) sample_db
                     (resume_v2\<lparr>res_user := Some 2\<rparr>))
      = \<lparr>status = 201, body = ResumeBody ''Resume saved successfully!'' r\<rparr>"
    by blast
  then have a3: "status (snd (post_api_resume sample_config 200 (Some candidate1_token)
                     sample_db (resume_v2\<lparr>res_user := Some 2\<rparr>))) = 201"
    by simp
  have "ru_role recruiter3 = Some ''Recruiter''
      \<and> jb_jobTitle (sample_job_body\<lparr>jb_recruiter := Some 1\<rparr>) = Some ''Engineer''
      \<and> ''Engineer'' \<noteq> []
      \<and> jb_location (sample_job_body\<lparr>jb_recruiter := Some 1\<rparr>) = Some ''Remote''
      \<and> ''Remote'' \<noteq> []
      \<and> jb_employmentType (sample_job_body\<lparr>jb_recruiter := Some 1\<rparr>) = Some ''Contract''
      \<and> ''Contract'' \<in> {''Full-time'', ''Part-time'', ''Contract'', ''Internship''}
      \<and> jb_jobSummary (sample_job_body\<lparr>jb_recruiter := Some 1\<rparr>) = Some ''Proofs''
      \<and> ''Proofs'' \<noteq> []
      \<and> jb_companyName (sample_job_body\<lparr>jb_recruiter := Some 1\<rparr>) = Some ''ACME''
      \<and> ''ACME'' \<noteq> []"
    by (simp add: recruiter3_def sample_job_body_def)
  with b owner_is_authenticated_caller [where cfg = sample_config and now = 200
      and hdr = "Some recruiter3_token" and u = recruiter3 and d = sample_db
      and c = "sample_job_body\<lparr>jb_recruiter := Some 1\<rparr>" and ti = "''Engineer''"
      and lo = "''Remote''" and et = "''Contract''" and su = "''Proofs''" and co = "''ACME''"]
  obtain j where "snd (post_jobs sample_config 200 (Some recruiter3_token) sample_db
                     (sample_job_body\<lparr>jb_recruiter := Some 1\<rparr>))
      = \<lparr>status = 201, body = JobBody j\<rparr>"
    by blast
  then have b3: "status (snd (post_jobs sample_config 200 (Some recruiter3_token) sample_db
                     (sample_job_body\<lparr>jb_recruiter := Some 1\<rparr>))) = 201"
    by simp
  from a a1 a2 b b1 b2 c1 a3 b3 show ?thesis by (intro conjI)
qed

subsection \<open>Role guards\<close>

text \<open>
  Claim C9. \<^verbatim>\<open>isCandidate\<close> lets exactly the role \<^verbatim>\<open>Candidate\<close> through and
  answers every other role with 403; \<^verbatim>\<open>isAdmin\<close> lets exactly \<^verbatim>\<open>Admin\<close> through and
  answers 403; \<^verbatim>\<open>isRecruiter\<close> lets exactly \<^verbatim>\<open>Recruiter\<close> through and answers 401,
  a status that neither of the other two guards gives.
\<close>

theorem guards_by_role:
  "(isCandidate u = None \<longleftrightarrow> ru_role u = Some ''Candidate'')
   \<and> (ru_role u \<noteq> Some ''Candidate'' \<longrightarrow> (\<exists>r. isCandidate u = Some r \<and> status r = 403))
   \<and> (isAdmin u = None \<longleftrightarrow> ru_role u = Some ''Admin'')
   \<and> (ru_role u \<noteq> Some ''Admin'' \<longrightarrow> (\<exists>r. isAdmin u = Some r \<and> status r = 403))
   \<and> (isRecruiter u = None \<longleftrightarrow> ru_role u = Some ''Recruiter'')
   \<and> (ru_role u \<noteq> Some ''Recruiter'' \<longrightarrow> (\<exists>r. isRecruiter u = Some r \<and> status r = 401))
   \<and> (\<forall>v r r'. isRecruiter u = Some r \<and> (isCandidate v = Some r' \<or> isAdmin v = Some r')
          \<longrightarrow> status r \<noteq> status r')"
  by (auto simp: isCandidate_def isAdmin_def isRecruiter_def)

theorem guards_by_role_witness:
  "isCandidate \<lparr>ru_id = 7, ru_role = Some ''Admin''\<rparr>
     = Some \<lparr>status = 403, body = Msg ''Only candidates can perform this action.''\<rparr>
   \<and> isAdmin \<lparr>ru_id = 7, ru_role = Some ''Admin''\<rparr> = None
   \<and> isRecruiter \<lparr>ru_id = 7, ru_role = Some ''Admin''\<rparr>
     = Some \<lparr>status = 401, body = Msg ''Only recruiters can access this route''\<rparr>
   \<and> isAdmin \<lparr>ru_id = 8, ru_role = Some ''Recruiter''\<rparr>
     = Some \<lparr>status = 403, body = Msg ''Admin access denied''\<rparr>
   \<and> isRecruiter \<lparr>ru_id = 8, ru_role = Some ''Recruiter''\<rparr> = None
   \<and> isCandidate \<lparr>ru_id = 9, ru_role = Some ''Candidate''\<rparr> = None"
  using guards_by_role [of "\<lparr>ru_id = 7, ru_role = Some ''Admin''\<rparr>"]
    guards_by_role [of "\<lparr>ru_id = 8, ru_role = Some ''Recruiter''\<rparr>"]
    guards_by_role [of "\<lparr>ru_id = 9, ru_role = Some ''Candidate''\<rparr>"]
  by (simp add: isCandidate_def isAdmin_def isRecruiter_def)

end
